theory Spec2Isabelle
  imports Main "HOL-Library.Char_ord" "HOL-Library.List_Lexorder" "HOL-Library.DAList"
begin

section \<open>JavaScript values\<close>

text \<open>
  The values the adapter stores and hands back. Numbers are integers (timestamps and
  limits are counts; fractions and NaN are not modelled). An object is the list of its
  own properties in enumeration order. A property that is missing reads as
  \<open>JUndefined\<close>, as in JavaScript.

  \<open>JBuiltin name\<close> is the value that every object inherits under \<open>name\<close> from
  \<^verbatim>\<open>Object.prototype\<close>: the built-in function \<^verbatim>\<open>Object\<close> for \<open>constructor\<close>, the
  method \<^verbatim>\<open>Object.prototype.toString\<close> for \<open>toString\<close>, and so on, and
  \<^verbatim>\<open>Object.prototype\<close> itself for \<^verbatim>\<open>__proto__\<close>. Each of them is an object.
\<close>

datatype jsval =
    JUndefined
  | JNull
  | JBool bool
  | JNum int
  | JStr string
  | JArr "jsval list"
  | JObj "(string \<times> jsval) list"
  | JBuiltin string

text \<open>
  Truthiness: \<open>undefined\<close>, \<open>null\<close>, \<open>false\<close>, \<open>0\<close> and \<open>''\<close> are falsy;
  every object is truthy.
\<close>

fun truthy :: "jsval \<Rightarrow> bool" where
  "truthy JUndefined = False"
| "truthy JNull = False"
| "truthy (JBool b) = b"
| "truthy (JNum n) = (n \<noteq> 0)"
| "truthy (JStr s) = (s \<noteq> [])"
| "truthy (JArr xs) = True"
| "truthy (JObj kvs) = True"
| "truthy (JBuiltin name) = True"

fun nullish :: "jsval \<Rightarrow> bool" where
  "nullish JUndefined = True"
| "nullish JNull = True"
| "nullish v = False"

text \<open>\<^verbatim>\<open>a || b\<close> and \<^verbatim>\<open>a ?? b\<close> on values.\<close>

definition js_or :: "jsval \<Rightarrow> jsval \<Rightarrow> jsval" where
  "js_or a b = (if truthy a then a else b)"

definition js_coalesce :: "jsval \<Rightarrow> jsval \<Rightarrow> jsval" where
  "js_coalesce a b = (if nullish a then b else a)"

text \<open>A parameter with a default value: the default replaces \<open>undefined\<close> only.\<close>

definition default_param :: "jsval \<Rightarrow> jsval \<Rightarrow> jsval" where
  "default_param v d = (if v = JUndefined then d else v)"

datatype error =
    NoNodeRuntime
  | FsError string
  | SyntaxError
  | TypeError

text \<open>\<^verbatim>\<open>err.code\<close>: only the errors of the file system carry one.\<close>

fun err_code :: "error \<Rightarrow> string option" where
  "err_code (FsError c) = Some c"
| "err_code e = None"

text \<open>
  \<^verbatim>\<open>o.name\<close> for one of the names the adapter reads (\<open>metadata\<close>): reading a
  property of \<open>undefined\<close> or \<open>null\<close> throws, an object gives its own property, and
  any other value has no property of that name (nor do the prototypes of objects,
  strings, numbers, arrays and functions).
\<close>

fun get_prop :: "jsval \<Rightarrow> string \<Rightarrow> error + jsval" where
  "get_prop JUndefined k = Inl TypeError"
| "get_prop JNull k = Inl TypeError"
| "get_prop (JObj kvs) k = Inr (case map_of kvs k of None \<Rightarrow> JUndefined | Some v \<Rightarrow> v)"
| "get_prop v k = Inr JUndefined"

text \<open>\<^verbatim>\<open>s.startsWith(p)\<close>\<close>

definition startsWith :: "string \<Rightarrow> string \<Rightarrow> bool" where
  "startsWith s p = (take (length p) s = p)"

text \<open>\<^verbatim>\<open>s.replace(pat, rep)\<close> with a string pattern: the first occurrence only.\<close>

fun replace_first :: "string \<Rightarrow> string \<Rightarrow> string \<Rightarrow> string" where
  "replace_first [] pat rep = (if pat = [] then rep else [])"
| "replace_first (c # cs) pat rep =
     (if startsWith (c # cs) pat then rep @ drop (length pat) (c # cs)
      else c # replace_first cs pat rep)"

text \<open>\<^verbatim>\<open>xs.indexOf(x)\<close>: the first index, or \<open>-1\<close>.\<close>

fun indexOf :: "'a list \<Rightarrow> 'a \<Rightarrow> int" where
  "indexOf [] x = - 1"
| "indexOf (y # ys) x =
     (if y = x then 0 else (let i = indexOf ys x in if i < 0 then - 1 else i + 1))"

text \<open>\<^verbatim>\<open>xs.slice(from, to)\<close> for indices that are not negative.\<close>

definition slice :: "'a list \<Rightarrow> nat \<Rightarrow> nat \<Rightarrow> 'a list" where
  "slice xs from to = take (to - from) (drop from xs)"


section \<open>The document and the adapter\<close>

text \<open>
  The three namespaces are plain JavaScript objects used as dictionaries, as \<^verbatim>\<open>{}\<close>
  and \<^verbatim>\<open>JSON.parse\<close> make them: lists of own properties with distinct keys, in
  enumeration order (type \<open>alist\<close>), with \<^verbatim>\<open>Object.prototype\<close> as their prototype.
  A new key is appended; the numeric order in which JavaScript enumerates keys that
  are array indices is not modelled, and no statement below depends on where a new key
  lands.

  A file record is \<^verbatim>\<open>{value, metadata}\<close>; an operation is
  \<^verbatim>\<open>{type, timestamp, data, processed}\<close> with a numeric timestamp and a boolean
  flag, each of which may be missing (\<open>None\<close>).
\<close>

record file_record =
  r_value :: jsval
  r_metadata :: jsval

record operation =
  op_type :: jsval
  op_timestamp :: "int option"
  op_data :: jsval
  op_processed :: "bool option"

record document =
  files :: "(string, file_record) alist"
  settings :: "(string, jsval) alist"
  operations :: "(string, operation) alist"

record adapter =
  dbPath :: string
  dataLoaded :: bool
  data :: document
  fsPromise :: bool
  pathPromise :: bool

definition empty_document :: document where
  "empty_document = \<lparr>files = DAList.empty, settings = DAList.empty, operations = DAList.empty\<rparr>"

text \<open>
  The constructor, given the path it has resolved (the default path for a missing
  argument and \<^verbatim>\<open>normalizePath\<close>, which hands a \<^verbatim>\<open>file:\<close> URL to Node's
  \<^verbatim>\<open>fileURLToPath\<close>, are not modelled).
\<close>

definition LocalFileDatabase :: "string \<Rightarrow> adapter" where
  "LocalFileDatabase p =
     \<lparr>dbPath = p, dataLoaded = False, data = empty_document,
      fsPromise = False, pathPromise = False\<rparr>"

text \<open>
  \<^verbatim>\<open>Object.keys(obj)\<close> and \<^verbatim>\<open>Object.entries(obj)\<close> enumerate the own properties
  only.
\<close>

definition object_keys :: "(string, 'v) alist \<Rightarrow> string list" where
  "object_keys obj = map fst (DAList.impl_of obj)"

definition object_entries :: "(string, 'v) alist \<Rightarrow> (string \<times> 'v) list" where
  "object_entries obj = DAList.impl_of obj"

text \<open>
  The names of the members of \<^verbatim>\<open>Object.prototype\<close> in Node.js. A read
  \<^verbatim>\<open>obj[key]\<close> finds the own property of that name; failing that, the member of
  that name which \<open>obj\<close> inherits; failing that, \<open>undefined\<close>. The adapter never asks
  whether the property it has read is an own one.
\<close>

definition object_prototype :: "string list" where
  "object_prototype =
     [''constructor'', ''__defineGetter__'', ''__defineSetter__'', ''hasOwnProperty'',
      ''__lookupGetter__'', ''__lookupSetter__'', ''isPrototypeOf'', ''propertyIsEnumerable'',
      ''toString'', ''valueOf'', ''__proto__'', ''toLocaleString'']"

datatype 'v property = Own 'v | Inherited string | Missing

definition read_property :: "(string, 'v) alist \<Rightarrow> string \<Rightarrow> 'v property" where
  "read_property obj key =
     (case DAList.lookup obj key of
        Some v \<Rightarrow> Own v
      | None \<Rightarrow> if key \<in> set object_prototype then Inherited key else Missing)"

text \<open>
  A write \<^verbatim>\<open>obj[key] = v\<close> is \<open>DAList.update\<close>: it sets the own property, after the
  others when it is new. (JavaScript treats one write differently: on an object with no
  own property \<^verbatim>\<open>__proto__\<close>, an assignment under that key runs the inherited setter,
  which makes an assigned object the prototype and drops any other value. The
  namespaces of the model keep their prototype and hold the assigned value under the
  key: a record assigned there is read back under the key, as in the code, but the code
  does not enumerate the key, and it answers the reads of absent keys through the new
  prototype.)
\<close>


section \<open>The runtime and the file system\<close>

text \<open>
  What \<^verbatim>\<open>JSON.parse\<close> makes of the backing file: a value that is not an object
  (\<open>null\<close>, a number, a string, a boolean), or an object, of which the adapter reads
  the three namespaces; \<open>None\<close> is a namespace that is missing or falsy.
\<close>

datatype parsed =
    NotAnObject
  | Parsed "(string, file_record) alist option"
           "(string, jsval) alist option"
           "(string, operation) alist option"

text \<open>
  \<^verbatim>\<open>JSON.parse\<close> and \<^verbatim>\<open>JSON.stringify\<close> belong to the runtime and are parameters of
  the model, at the types the adapter uses them: on the text of the backing file and
  on the document, on the value handed to \<^verbatim>\<open>put\<close> and on an operation record.
  \<open>None\<close> is a \<^verbatim>\<open>SyntaxError\<close>. The parse of an operation gives \<open>Some None\<close> for
  the text \<^verbatim>\<open>null\<close>, whose fields cannot be read.
\<close>

record runtime =
  node :: bool
  json_parse_document :: "string \<Rightarrow> parsed option"
  json_stringify_document :: "document \<Rightarrow> string"
  json_parse_operation :: "jsval \<Rightarrow> operation option option"
  json_stringify_operation :: "operation \<Rightarrow> string"

text \<open>
  The file system: what is at each path, and the errors \<^verbatim>\<open>mkdir\<close> and
  \<^verbatim>\<open>writeFile\<close> fail with, if they do. A file that cannot be read carries the code of
  the error (\<open>ENOENT\<close> when there is no such file). The world also holds what
  \<^verbatim>\<open>console.error\<close> has printed.
\<close>

datatype file_state = Unreadable string | Text string

record world =
  disk :: "string \<Rightarrow> file_state"
  mkdir_error :: "string option"
  write_error :: "string option"
  console :: "error list"

text \<open>
  A call returns its value with the adapter and the world it leaves, or the error it
  throws. The state an exception leaves behind is not part of the model.
\<close>

definition getFs :: "runtime \<Rightarrow> adapter \<Rightarrow> error + adapter" where
  "getFs rt a =
     (if \<not> fsPromise a then
        (if \<not> node rt then Inl NoNodeRuntime else Inr (a\<lparr>fsPromise := True\<rparr>))
      else Inr a)"

definition getPath :: "adapter \<Rightarrow> adapter" where
  "getPath a = (if \<not> pathPromise a then a\<lparr>pathPromise := True\<rparr> else a)"

definition mkdir :: "world \<Rightarrow> error + unit" where
  "mkdir w = (case mkdir_error w of Some c \<Rightarrow> Inl (FsError c) | None \<Rightarrow> Inr ())"

definition readFile :: "world \<Rightarrow> string \<Rightarrow> error + string" where
  "readFile w p = (case disk w p of Unreadable c \<Rightarrow> Inl (FsError c) | Text s \<Rightarrow> Inr s)"

definition writeFile :: "world \<Rightarrow> string \<Rightarrow> string \<Rightarrow> error + world" where
  "writeFile w p s =
     (case write_error w of
        Some c \<Rightarrow> Inl (FsError c)
      | None \<Rightarrow> Inr (w\<lparr>disk := (disk w)(p := Text s)\<rparr>))"

text \<open>The body of the \<^verbatim>\<open>try\<close> block of \<^verbatim>\<open>ensureLoaded\<close>.\<close>

definition read_and_parse :: "runtime \<Rightarrow> adapter \<Rightarrow> world \<Rightarrow> error + parsed" where
  "read_and_parse rt a w =
     (case readFile w (dbPath a) of
        Inl err \<Rightarrow> Inl err
      | Inr content \<Rightarrow>
          (case json_parse_document rt content of
             None \<Rightarrow> Inl SyntaxError
           | Some p \<Rightarrow> Inr p))"

definition or_empty :: "(string, 'v) alist option \<Rightarrow> (string, 'v) alist" where
  "or_empty ns = (case ns of None \<Rightarrow> DAList.empty | Some obj \<Rightarrow> obj)"

text \<open>
  \<^verbatim>\<open>ensureLoaded\<close>. The \<^verbatim>\<open>catch\<close> clause keeps the document and prints the error
  unless its code is \<open>ENOENT\<close>. After the \<^verbatim>\<open>try\<close> block each namespace that is
  missing or falsy becomes \<^verbatim>\<open>{}\<close>; these assignments throw when the parsed value is
  not an object (a \<^verbatim>\<open>TypeError\<close>; the module is in strict mode), and they leave the
  constructor's document as it is.
\<close>

definition ensureLoaded :: "runtime \<Rightarrow> adapter \<Rightarrow> world \<Rightarrow> error + (adapter \<times> world)" where
  "ensureLoaded rt a w =
     (if dataLoaded a then Inr (a, w)
      else
        (case getFs rt a of
           Inl e \<Rightarrow> Inl e
         | Inr a1 \<Rightarrow>
             (let a2 = getPath a1 in
              case mkdir w of
                Inl e \<Rightarrow> Inl e
              | Inr u \<Rightarrow>
                  (case read_and_parse rt a2 w of
                     Inl err \<Rightarrow>
                       Inr (a2\<lparr>dataLoaded := True\<rparr>,
                            if err_code err \<noteq> Some ''ENOENT''
                            then w\<lparr>console := console w @ [err]\<rparr> else w)
                   | Inr NotAnObject \<Rightarrow> Inl TypeError
                   | Inr (Parsed f s ops) \<Rightarrow>
                       Inr (a2\<lparr>data := \<lparr>files = or_empty f, settings = or_empty s,
                                         operations = or_empty ops\<rparr>,
                               dataLoaded := True\<rparr>, w)))))"

definition persist :: "runtime \<Rightarrow> adapter \<Rightarrow> world \<Rightarrow> error + (adapter \<times> world)" where
  "persist rt a w =
     (case getFs rt a of
        Inl e \<Rightarrow> Inl e
      | Inr a1 \<Rightarrow>
          (let a2 = getPath a1 in
           case mkdir w of
             Inl e \<Rightarrow> Inl e
           | Inr u \<Rightarrow>
               (case writeFile w (dbPath a2) (json_stringify_document rt (data a2)) of
                  Inl e \<Rightarrow> Inl e
                | Inr w1 \<Rightarrow> Inr (a2, w1))))"


section \<open>Options and defaults\<close>

text \<open>
  The options of the listings. \<open>None\<close> is an option that is \<open>undefined\<close> or
  \<open>null\<close>. The defaults are taken with \<^verbatim>\<open>||\<close>, so an empty string and a limit of
  \<open>0\<close> count as missing too.
\<close>

record list_options =
  opt_prefix :: "string option"
  opt_limit :: "nat option"
  opt_cursor :: "string option"
  opt_processed :: "bool option"

definition no_options :: list_options where
  "no_options = \<lparr>opt_prefix = None, opt_limit = None, opt_cursor = None, opt_processed = None\<rparr>"

text \<open>\<^verbatim>\<open>options.prefix || ''\<close>\<close>

definition str_or :: "string option \<Rightarrow> string \<Rightarrow> string" where
  "str_or s d = (case s of None \<Rightarrow> d | Some x \<Rightarrow> if x \<noteq> [] then x else d)"

text \<open>\<^verbatim>\<open>options.limit || 1000\<close> and \<^verbatim>\<open>a.timestamp || 0\<close>\<close>

definition nat_or :: "nat option \<Rightarrow> nat \<Rightarrow> nat" where
  "nat_or n d = (case n of None \<Rightarrow> d | Some x \<Rightarrow> if x \<noteq> 0 then x else d)"

definition int_or :: "int option \<Rightarrow> int \<Rightarrow> int" where
  "int_or n d = (case n of None \<Rightarrow> d | Some x \<Rightarrow> if x \<noteq> 0 then x else d)"

text \<open>\<^verbatim>\<open>options.cursor || null\<close>: an empty cursor is no cursor.\<close>

definition str_or_null :: "string option \<Rightarrow> string option" where
  "str_or_null s = (case s of None \<Rightarrow> None | Some x \<Rightarrow> if x \<noteq> [] then Some x else None)"

text \<open>\<^verbatim>\<open>op.processed ?? false\<close>\<close>

definition bool_coalesce :: "bool option \<Rightarrow> bool \<Rightarrow> bool" where
  "bool_coalesce b d = (case b of None \<Rightarrow> d | Some x \<Rightarrow> x)"

text \<open>\<^verbatim>\<open>obj[key]\<close> on a dictionary of values, as a value.\<close>

definition obj_get :: "(string, jsval) alist \<Rightarrow> string \<Rightarrow> jsval" where
  "obj_get obj k =
     (case read_property obj k of
        Own v \<Rightarrow> v
      | Inherited name \<Rightarrow> JBuiltin name
      | Missing \<Rightarrow> JUndefined)"


text \<open>
  \<^verbatim>\<open>Object.keys(obj).filter((key) => key.startsWith(prefix)).sort()\<close>: the default
  order of \<^verbatim>\<open>sort\<close> on strings is the lexicographic order of their code units.
\<close>

definition matching_keys :: "(string, 'v) alist \<Rightarrow> string \<Rightarrow> string list" where
  "matching_keys obj prefix = sort (filter (\<lambda>key. startsWith key prefix) (object_keys obj))"


section \<open>The file namespace\<close>

definition putFile ::
  "runtime \<Rightarrow> adapter \<Rightarrow> world \<Rightarrow> string \<Rightarrow> jsval \<Rightarrow> jsval \<Rightarrow> error + (unit \<times> adapter \<times> world)" where
  "putFile rt a w fileId value0 options0 =
     (let value = default_param value0 (JStr []);
          options = default_param options0 (JObj [])
      in case ensureLoaded rt a w of
           Inl e \<Rightarrow> Inl e
         | Inr (a1, w1) \<Rightarrow>
             (case get_prop options ''metadata'' of
                Inl e \<Rightarrow> Inl e
              | Inr m \<Rightarrow>
                  (let metadata = js_or m (JObj []);
                       a2 = a1\<lparr>data := (data a1)\<lparr>files :=
                              DAList.update fileId \<lparr>r_value = value, r_metadata = metadata\<rparr>
                                (files (data a1))\<rparr>\<rparr>
                   in case persist rt a2 w1 of
                        Inl e \<Rightarrow> Inl e
                      | Inr (a3, w2) \<Rightarrow> Inr ((), a3, w2))))"

text \<open>
  The result is \<open>None\<close> for \<open>null\<close>. A record is an object, hence truthy, and so
  is an inherited member, which has no property \<open>value\<close> and no property
  \<open>metadata\<close>: the test \<^verbatim>\<open>!record\<close> lets it through, and both fields read as
  \<open>undefined\<close>.
\<close>

definition getFile ::
  "runtime \<Rightarrow> adapter \<Rightarrow> world \<Rightarrow> string \<Rightarrow> error + (file_record option \<times> adapter \<times> world)" where
  "getFile rt a w fileId =
     (case ensureLoaded rt a w of
        Inl e \<Rightarrow> Inl e
      | Inr (a1, w1) \<Rightarrow>
          (case read_property (files (data a1)) fileId of
             Missing \<Rightarrow> Inr (None, a1, w1)
           | Inherited name \<Rightarrow>
               Inr (Some \<lparr>r_value = JUndefined, r_metadata = js_or JUndefined (JObj [])\<rparr>,
                    a1, w1)
           | Own record \<Rightarrow>
               Inr (Some \<lparr>r_value = r_value record,
                          r_metadata = js_or (r_metadata record) (JObj [])\<rparr>, a1, w1)))"

definition getFileWithMetadata ::
  "runtime \<Rightarrow> adapter \<Rightarrow> world \<Rightarrow> string \<Rightarrow> error + (file_record option \<times> adapter \<times> world)" where
  "getFileWithMetadata rt a w fileId = getFile rt a w fileId"

definition deleteFile ::
  "runtime \<Rightarrow> adapter \<Rightarrow> world \<Rightarrow> string \<Rightarrow> error + (unit \<times> adapter \<times> world)" where
  "deleteFile rt a w fileId =
     (case ensureLoaded rt a w of
        Inl e \<Rightarrow> Inl e
      | Inr (a1, w1) \<Rightarrow>
          (let a2 = a1\<lparr>data := (data a1)\<lparr>files := DAList.delete fileId (files (data a1))\<rparr>\<rparr>
           in case persist rt a2 w1 of
                Inl e \<Rightarrow> Inl e
              | Inr (a3, w2) \<Rightarrow> Inr ((), a3, w2)))"

text \<open>A page of \<^verbatim>\<open>listFiles\<close>: the keys as pairs of name and metadata.\<close>

record files_page =
  page_keys :: "(string \<times> jsval) list"
  page_cursor :: "string option"
  list_complete :: bool

text \<open>
  \<^verbatim>\<open>this.data.files[name]?.metadata || {}\<close>. The names come from
  \<^verbatim>\<open>Object.keys\<close>, so the property is an own one.
\<close>

definition metadata_of :: "(string, file_record) alist \<Rightarrow> string \<Rightarrow> jsval" where
  "metadata_of obj name =
     js_or (case read_property obj name of Own r \<Rightarrow> r_metadata r | other \<Rightarrow> JUndefined)
       (JObj [])"

text \<open>
  \<^verbatim>\<open>keys[keys.length - 1].name\<close> throws when \<open>keys\<close> is empty; the limit is at
  least one, so it never is (lemma \<open>listFiles_core_total\<close>).
\<close>

definition listFiles_core ::
  "(string, file_record) alist \<Rightarrow> list_options \<Rightarrow> error + files_page" where
  "listFiles_core fs options =
     (let prefix = str_or (opt_prefix options) [];
          limit = nat_or (opt_limit options) 1000;
          cursor = str_or_null (opt_cursor options);
          allKeys = matching_keys fs prefix;
          startIndex = (case cursor of None \<Rightarrow> 0 | Some c \<Rightarrow> nat (indexOf allKeys c + 1));
          sliced = slice allKeys startIndex (startIndex + limit + 1);
          hasMore = (length sliced > limit);
          keys = map (\<lambda>name. (name, metadata_of fs name))
                   (if hasMore then slice sliced 0 limit else sliced)
      in if hasMore
         then (case keys of
                 [] \<Rightarrow> Inl TypeError
               | k # ks \<Rightarrow>
                   Inr \<lparr>page_keys = keys, page_cursor = Some (fst (last keys)),
                        list_complete = False\<rparr>)
         else Inr \<lparr>page_keys = keys, page_cursor = None, list_complete = True\<rparr>)"

definition listFiles ::
  "runtime \<Rightarrow> adapter \<Rightarrow> world \<Rightarrow> list_options \<Rightarrow> error + (files_page \<times> adapter \<times> world)" where
  "listFiles rt a w options =
     (case ensureLoaded rt a w of
        Inl e \<Rightarrow> Inl e
      | Inr (a1, w1) \<Rightarrow>
          (case listFiles_core (files (data a1)) options of
             Inl e \<Rightarrow> Inl e
           | Inr page \<Rightarrow> Inr (page, a1, w1)))"


section \<open>The settings namespace\<close>

definition putSetting ::
  "runtime \<Rightarrow> adapter \<Rightarrow> world \<Rightarrow> string \<Rightarrow> jsval \<Rightarrow> error + (unit \<times> adapter \<times> world)" where
  "putSetting rt a w key value =
     (case ensureLoaded rt a w of
        Inl e \<Rightarrow> Inl e
      | Inr (a1, w1) \<Rightarrow>
          (let a2 = a1\<lparr>data := (data a1)\<lparr>settings :=
                      DAList.update key value (settings (data a1))\<rparr>\<rparr>
           in case persist rt a2 w1 of
                Inl e \<Rightarrow> Inl e
              | Inr (a3, w2) \<Rightarrow> Inr ((), a3, w2)))"

definition getSetting ::
  "runtime \<Rightarrow> adapter \<Rightarrow> world \<Rightarrow> string \<Rightarrow> error + (jsval \<times> adapter \<times> world)" where
  "getSetting rt a w key =
     (case ensureLoaded rt a w of
        Inl e \<Rightarrow> Inl e
      | Inr (a1, w1) \<Rightarrow> Inr (js_coalesce (obj_get (settings (data a1)) key) JNull, a1, w1))"

definition deleteSetting ::
  "runtime \<Rightarrow> adapter \<Rightarrow> world \<Rightarrow> string \<Rightarrow> error + (unit \<times> adapter \<times> world)" where
  "deleteSetting rt a w key =
     (case ensureLoaded rt a w of
        Inl e \<Rightarrow> Inl e
      | Inr (a1, w1) \<Rightarrow>
          (let a2 = a1\<lparr>data := (data a1)\<lparr>settings := DAList.delete key (settings (data a1))\<rparr>\<rparr>
           in case persist rt a2 w1 of
                Inl e \<Rightarrow> Inl e
              | Inr (a3, w2) \<Rightarrow> Inr ((), a3, w2)))"

text \<open>The keys of \<^verbatim>\<open>listSettings\<close>, as pairs of name and value.\<close>

definition listSettings_core :: "(string, jsval) alist \<Rightarrow> list_options \<Rightarrow> (string \<times> jsval) list" where
  "listSettings_core ss options =
     (let prefix = str_or (opt_prefix options) [];
          limit = nat_or (opt_limit options) 1000
      in map (\<lambda>name. (name, obj_get ss name))
           (slice (matching_keys ss prefix) 0 limit))"

definition listSettings ::
  "runtime \<Rightarrow> adapter \<Rightarrow> world \<Rightarrow> list_options \<Rightarrow>
     error + ((string \<times> jsval) list \<times> adapter \<times> world)" where
  "listSettings rt a w options =
     (case ensureLoaded rt a w of
        Inl e \<Rightarrow> Inl e
      | Inr (a1, w1) \<Rightarrow> Inr (listSettings_core (settings (data a1)) options, a1, w1))"


section \<open>The namespace of index operations\<close>

text \<open>
  The operation handed to \<^verbatim>\<open>putIndexOperation\<close> is \<open>None\<close> when it is \<open>null\<close>
  (\<^verbatim>\<open>put\<close> gets that from the text \<^verbatim>\<open>null\<close>): reading its fields throws.
\<close>

definition putIndexOperation ::
  "runtime \<Rightarrow> adapter \<Rightarrow> world \<Rightarrow> string \<Rightarrow> operation option \<Rightarrow>
     error + (unit \<times> adapter \<times> world)" where
  "putIndexOperation rt a w operationId operation =
     (case ensureLoaded rt a w of
        Inl e \<Rightarrow> Inl e
      | Inr (a1, w1) \<Rightarrow>
          (case operation of
             None \<Rightarrow> Inl TypeError
           | Some opn \<Rightarrow>
               (let a2 = a1\<lparr>data := (data a1)\<lparr>operations :=
                           DAList.update operationId
                             \<lparr>op_type = op_type opn, op_timestamp = op_timestamp opn,
                              op_data = op_data opn,
                              op_processed = Some (bool_coalesce (op_processed opn) False)\<rparr>
                             (operations (data a1))\<rparr>\<rparr>
                in case persist rt a2 w1 of
                     Inl e \<Rightarrow> Inl e
                   | Inr (a3, w2) \<Rightarrow> Inr ((), a3, w2))))"

text \<open>
  As in \<^verbatim>\<open>getFile\<close>, an inherited member passes the test \<^verbatim>\<open>!op\<close>; it has none of
  the four properties, so the record returned has three fields \<open>undefined\<close> and the
  flag \<open>false\<close>.
\<close>

definition getIndexOperation ::
  "runtime \<Rightarrow> adapter \<Rightarrow> world \<Rightarrow> string \<Rightarrow> error + (operation option \<times> adapter \<times> world)" where
  "getIndexOperation rt a w operationId =
     (case ensureLoaded rt a w of
        Inl e \<Rightarrow> Inl e
      | Inr (a1, w1) \<Rightarrow>
          (case read_property (operations (data a1)) operationId of
             Missing \<Rightarrow> Inr (None, a1, w1)
           | Inherited name \<Rightarrow>
               Inr (Some \<lparr>op_type = JUndefined, op_timestamp = None, op_data = JUndefined,
                          op_processed = Some (bool_coalesce None False)\<rparr>, a1, w1)
           | Own opn \<Rightarrow>
               Inr (Some \<lparr>op_type = op_type opn, op_timestamp = op_timestamp opn,
                          op_data = op_data opn,
                          op_processed = Some (bool_coalesce (op_processed opn) False)\<rparr>,
                    a1, w1)))"

definition deleteIndexOperation ::
  "runtime \<Rightarrow> adapter \<Rightarrow> world \<Rightarrow> string \<Rightarrow> error + (unit \<times> adapter \<times> world)" where
  "deleteIndexOperation rt a w operationId =
     (case ensureLoaded rt a w of
        Inl e \<Rightarrow> Inl e
      | Inr (a1, w1) \<Rightarrow>
          (let a2 = a1\<lparr>data := (data a1)\<lparr>operations :=
                      DAList.delete operationId (operations (data a1))\<rparr>\<rparr>
           in case persist rt a2 w1 of
                Inl e \<Rightarrow> Inl e
              | Inr (a3, w2) \<Rightarrow> Inr ((), a3, w2)))"

text \<open>
  The comparator \<^verbatim>\<open>(a.timestamp || 0) - (b.timestamp || 0)\<close> orders the entries by the
  key \<open>sort_timestamp\<close>; \<^verbatim>\<open>Array.prototype.sort\<close> is stable, as \<open>sort_key\<close> is.
\<close>

definition sort_timestamp :: "string \<times> operation \<Rightarrow> int" where
  "sort_timestamp e = int_or (op_timestamp (snd e)) 0"

text \<open>
  The filter: everything passes when the option is \<open>undefined\<close> or \<open>null\<close>,
  otherwise \<^verbatim>\<open>op.processed === processedFilter\<close> on the stored field.
\<close>

definition passes :: "bool option \<Rightarrow> string \<times> operation \<Rightarrow> bool" where
  "passes processedFilter e =
     (case processedFilter of None \<Rightarrow> True | Some b \<Rightarrow> op_processed (snd e) = Some b)"

text \<open>An entry of the result: the id and the record, its flag defaulted.\<close>

definition entry_out :: "string \<times> operation \<Rightarrow> string \<times> operation" where
  "entry_out e =
     (fst e, \<lparr>op_type = op_type (snd e), op_timestamp = op_timestamp (snd e),
              op_data = op_data (snd e),
              op_processed = Some (bool_coalesce (op_processed (snd e)) False)\<rparr>)"

definition listIndexOperations_core ::
  "(string, operation) alist \<Rightarrow> list_options \<Rightarrow> (string \<times> operation) list" where
  "listIndexOperations_core ops options =
     (let limit = nat_or (opt_limit options) 1000;
          processedFilter = opt_processed options;
          entries = slice (filter (passes processedFilter)
                             (sort_key sort_timestamp (object_entries ops))) 0 limit
      in map entry_out entries)"

definition listIndexOperations ::
  "runtime \<Rightarrow> adapter \<Rightarrow> world \<Rightarrow> list_options \<Rightarrow>
     error + ((string \<times> operation) list \<times> adapter \<times> world)" where
  "listIndexOperations rt a w options =
     (case ensureLoaded rt a w of
        Inl e \<Rightarrow> Inl e
      | Inr (a1, w1) \<Rightarrow> Inr (listIndexOperations_core (operations (data a1)) options, a1, w1))"


section \<open>The generic interface\<close>

definition settings_prefix :: string where
  "settings_prefix = ''manage@sysConfig@''"

definition operation_prefix :: string where
  "operation_prefix = ''manage@index@operation_''"

definition put ::
  "runtime \<Rightarrow> adapter \<Rightarrow> world \<Rightarrow> string \<Rightarrow> jsval \<Rightarrow> jsval \<Rightarrow> error + (unit \<times> adapter \<times> world)" where
  "put rt a w key value options =
     (if startsWith key settings_prefix then putSetting rt a w key value
      else if startsWith key operation_prefix then
        (let operationId = replace_first key operation_prefix []
         in case json_parse_operation rt value of
              None \<Rightarrow> Inl SyntaxError
            | Some operation \<Rightarrow> putIndexOperation rt a w operationId operation)
      else putFile rt a w key value options)"

text \<open>The result of \<^verbatim>\<open>get\<close> is a value: \<open>JNull\<close>, or what is stored.\<close>

definition get ::
  "runtime \<Rightarrow> adapter \<Rightarrow> world \<Rightarrow> string \<Rightarrow> error + (jsval \<times> adapter \<times> world)" where
  "get rt a w key =
     (if startsWith key settings_prefix then getSetting rt a w key
      else if startsWith key operation_prefix then
        (let operationId = replace_first key operation_prefix []
         in case getIndexOperation rt a w operationId of
              Inl e \<Rightarrow> Inl e
            | Inr (None, a1, w1) \<Rightarrow> Inr (JNull, a1, w1)
            | Inr (Some operation, a1, w1) \<Rightarrow>
                Inr (JStr (json_stringify_operation rt operation), a1, w1))
      else
        (case getFile rt a w key of
           Inl e \<Rightarrow> Inl e
         | Inr (None, a1, w1) \<Rightarrow> Inr (JNull, a1, w1)
         | Inr (Some file, a1, w1) \<Rightarrow> Inr (r_value file, a1, w1)))"

definition getWithMetadata ::
  "runtime \<Rightarrow> adapter \<Rightarrow> world \<Rightarrow> string \<Rightarrow> error + (file_record option \<times> adapter \<times> world)" where
  "getWithMetadata rt a w key =
     (if startsWith key settings_prefix then
        (case getSetting rt a w key of
           Inl e \<Rightarrow> Inl e
         | Inr (value, a1, w1) \<Rightarrow>
             Inr (if truthy value then Some \<lparr>r_value = value, r_metadata = JObj []\<rparr> else None,
                  a1, w1))
      else getFileWithMetadata rt a w key)"

definition delete' ::
  "runtime \<Rightarrow> adapter \<Rightarrow> world \<Rightarrow> string \<Rightarrow> error + (unit \<times> adapter \<times> world)" where
  "delete' rt a w key =
     (if startsWith key settings_prefix then deleteSetting rt a w key
      else if startsWith key operation_prefix then
        deleteIndexOperation rt a w (replace_first key operation_prefix [])
      else deleteFile rt a w key)"

text \<open>The three shapes \<^verbatim>\<open>list\<close> returns.\<close>

datatype listing =
    SettingKeys "(string \<times> jsval) list"
  | OperationKeys "string list"
  | FileKeys files_page

definition list' ::
  "runtime \<Rightarrow> adapter \<Rightarrow> world \<Rightarrow> list_options \<Rightarrow> error + (listing \<times> adapter \<times> world)" where
  "list' rt a w options =
     (let prefix = str_or (opt_prefix options) []
      in if startsWith prefix settings_prefix then
           (case listSettings rt a w options of
              Inl e \<Rightarrow> Inl e
            | Inr (ks, a1, w1) \<Rightarrow> Inr (SettingKeys ks, a1, w1))
         else if startsWith prefix operation_prefix then
           (case listIndexOperations rt a w options of
              Inl e \<Rightarrow> Inl e
            | Inr (ops, a1, w1) \<Rightarrow>
                Inr (OperationKeys (map (\<lambda>opn. operation_prefix @ fst opn) ops), a1, w1))
         else
           (case listFiles rt a w options of
              Inl e \<Rightarrow> Inl e
            | Inr (page, a1, w1) \<Rightarrow> Inr (FileKeys page, a1, w1)))"


section \<open>A caller that follows the cursor\<close>

text \<open>
  The caller lists the files under a prefix with a limit, and calls again with the
  cursor of the last page until a page is complete. The first argument bounds the
  number of calls: \<open>None\<close> says that no complete page was reached within it.
\<close>

fun follow_cursor ::
  "nat \<Rightarrow> runtime \<Rightarrow> adapter \<Rightarrow> world \<Rightarrow> string \<Rightarrow> nat \<Rightarrow> string option \<Rightarrow>
     (error + files_page list) option" where
  "follow_cursor 0 rt a w p l c = None"
| "follow_cursor (Suc n) rt a w p l c =
     (case listFiles rt a w
             \<lparr>opt_prefix = Some p, opt_limit = Some l, opt_cursor = c, opt_processed = None\<rparr> of
        Inl e \<Rightarrow> Some (Inl e)
      | Inr (page, a1, w1) \<Rightarrow>
          if list_complete page then Some (Inr [page])
          else (case follow_cursor n rt a1 w1 p l (page_cursor page) of
                  None \<Rightarrow> None
                | Some (Inl e) \<Rightarrow> Some (Inl e)
                | Some (Inr pages) \<Rightarrow> Some (Inr (page # pages))))"


section \<open>States for the examples\<close>

text \<open>
  A Node.js runtime (its JSON functions play no part in the examples that use it), a
  world with no backing file, and an adapter that has loaded a given document.
\<close>

definition node_runtime :: runtime where
  "node_runtime =
     \<lparr>node = True, json_parse_document = (\<lambda>s. None), json_stringify_document = (\<lambda>d. []),
      json_parse_operation = (\<lambda>v. None), json_stringify_operation = (\<lambda>opn. [])\<rparr>"

definition no_file_world :: world where
  "no_file_world =
     \<lparr>disk = (\<lambda>p. Unreadable ''ENOENT''), mkdir_error = None, write_error = None,
      console = []\<rparr>"

definition loaded_adapter :: "document \<Rightarrow> adapter" where
  "loaded_adapter d =
     \<lparr>dbPath = ''./data/local-db.json'', dataLoaded = True, data = d,
      fsPromise = True, pathPromise = True\<rparr>"


text \<open>Two files with metadata, and two files of which one has the empty key.\<close>

definition two_files :: "(string, file_record) alist" where
  "two_files =
     DAList.update ''doc2'' \<lparr>r_value = JStr ''world'', r_metadata = JObj [(''tag'', JStr ''b'')]\<rparr>
       (DAList.update ''doc1'' \<lparr>r_value = JStr ''hello'', r_metadata = JObj [(''tag'', JStr ''a'')]\<rparr>
          DAList.empty)"

definition empty_key_files :: "(string, file_record) alist" where
  "empty_key_files =
     DAList.update ''a'' \<lparr>r_value = JStr ''x'', r_metadata = JObj []\<rparr>
       (DAList.update [] \<lparr>r_value = JStr ''y'', r_metadata = JObj []\<rparr> DAList.empty)"

text \<open>
  The index at which \<^verbatim>\<open>listFiles\<close> resumes for a cursor (the \<open>startIndex\<close> of the
  source, named for the proofs).
\<close>

definition resume_index :: "string list \<Rightarrow> string option \<Rightarrow> nat" where
  "resume_index ks c =
     (case str_or_null c of None \<Rightarrow> 0 | Some x \<Rightarrow> nat (indexOf ks x + 1))"


text \<open>
  Three settings: a string, \<open>false\<close> and \<open>null\<close>.
\<close>

definition example_settings :: "(string, jsval) alist" where
  "example_settings =
     DAList.update ''manage@sysConfig@none'' JNull
       (DAList.update ''manage@sysConfig@flag'' (JBool False)
          (DAList.update ''manage@sysConfig@theme'' (JStr ''dark'') DAList.empty))"

text \<open>One setting, stored with the value \<open>undefined\<close>.\<close>

definition undefined_setting :: "(string, jsval) alist" where
  "undefined_setting = DAList.update ''manage@sysConfig@unset'' JUndefined DAList.empty"


text \<open>
  Four operations; \<open>old\<close> has no \<open>processed\<close> field and \<open>op2\<close> no timestamp.
\<close>

definition example_operations :: "(string, operation) alist" where
  "example_operations =
     DAList.update ''op3''
       \<lparr>op_type = JStr ''delete'', op_timestamp = Some 10, op_data = JNull, op_processed = Some False\<rparr>
       (DAList.update ''op2''
          \<lparr>op_type = JStr ''add'', op_timestamp = None, op_data = JNull, op_processed = Some True\<rparr>
          (DAList.update ''op1''
             \<lparr>op_type = JStr ''add'', op_timestamp = Some 30, op_data = JNull, op_processed = Some True\<rparr>
             (DAList.update ''old''
                \<lparr>op_type = JStr ''add'', op_timestamp = Some 20, op_data = JNull, op_processed = None\<rparr>
                DAList.empty)))"

text \<open>All the entries that pass the filter, in the order of the comparator.\<close>

definition passing_entries ::
  "(string, operation) alist \<Rightarrow> bool option \<Rightarrow> (string \<times> operation) list" where
  "passing_entries ops pf =
     map entry_out (filter (passes pf) (sort_key sort_timestamp (object_entries ops)))"


text \<open>
  A world whose backing file cannot be read, and one whose backing file is not JSON
  (\<open>node_runtime\<close> parses no text).
\<close>

definition unreadable_world :: world where
  "unreadable_world = no_file_world\<lparr>disk := (\<lambda>p. Unreadable ''EACCES'')\<rparr>"

definition corrupt_world :: world where
  "corrupt_world = no_file_world\<lparr>disk := (\<lambda>p. Text ''{ files: '')\<rparr>"

text \<open>A world whose backing file holds the JSON text \<^verbatim>\<open>null\<close>.\<close>

definition null_file_world :: world where
  "null_file_world = no_file_world\<lparr>disk := (\<lambda>p. Text ''null'')\<rparr>"


text \<open>
  A runtime whose JSON functions are given on the texts and records of the examples:
  the text \<^verbatim>\<open>null\<close> of a backing file, an operation without the \<open>processed\<close> field,
  the same with the flag \<open>false\<close>, and a record whose fields but the flag are
  \<open>undefined\<close>, which \<^verbatim>\<open>JSON.stringify\<close> leaves out (the texts stand for the JSON
  encodings, without their quotation marks).
\<close>

definition example_json_runtime :: runtime where
  "example_json_runtime =
     \<lparr>node = True,
      json_parse_document = (\<lambda>s. if s = ''null'' then Some NotAnObject else None),
      json_stringify_document = (\<lambda>d. []),
      json_parse_operation =
        (\<lambda>v. if v = JStr ''{type:add,timestamp:5,data:null}''
             then Some (Some \<lparr>op_type = JStr ''add'', op_timestamp = Some 5, op_data = JNull,
                               op_processed = None\<rparr>)
             else if v = JStr ''{type:add,timestamp:5,data:null,processed:false}''
             then Some (Some \<lparr>op_type = JStr ''add'', op_timestamp = Some 5, op_data = JNull,
                               op_processed = Some False\<rparr>)
             else None),
      json_stringify_operation =
        (\<lambda>opn. if op_type opn = JUndefined then ''{processed:false}''
               else if op_processed opn = None then ''{type:add,timestamp:5,data:null}''
               else ''{type:add,timestamp:5,data:null,processed:false}'')\<rparr>"


text \<open>
  The keys the generic interface routes to each namespace: a file key has neither
  reserved prefix, a setting key has the settings prefix.
\<close>

definition routed :: "document \<Rightarrow> bool" where
  "routed d =
     (list_all (\<lambda>k. \<not> startsWith k settings_prefix \<and> \<not> startsWith k operation_prefix)
        (object_keys (files d))
      \<and> list_all (\<lambda>k. startsWith k settings_prefix) (object_keys (settings d)))"


text \<open>
  The states an adapter goes through when it starts on a path with no backing file and
  is used through the generic interface alone (the calls that throw leave the run).
\<close>

inductive generic_run :: "runtime \<Rightarrow> adapter \<Rightarrow> world \<Rightarrow> bool" for rt :: runtime where
  start: "disk w p = Unreadable ''ENOENT'' \<Longrightarrow> generic_run rt (LocalFileDatabase p) w"
| after_put:
    "generic_run rt a w \<Longrightarrow> put rt a w key v options = Inr (u, a', w') \<Longrightarrow> generic_run rt a' w'"
| after_delete:
    "generic_run rt a w \<Longrightarrow> delete' rt a w key = Inr (u, a', w') \<Longrightarrow> generic_run rt a' w'"
| after_get:
    "generic_run rt a w \<Longrightarrow> get rt a w key = Inr (x, a', w') \<Longrightarrow> generic_run rt a' w'"
| after_getWithMetadata:
    "generic_run rt a w \<Longrightarrow> getWithMetadata rt a w key = Inr (r, a', w') \<Longrightarrow> generic_run rt a' w'"
| after_list:
    "generic_run rt a w \<Longrightarrow> list' rt a w opts = Inr (l, a', w') \<Longrightarrow> generic_run rt a' w'"


section \<open>The lifecycle\<close>


lemma ensureLoaded_loaded: "dataLoaded a \<Longrightarrow> ensureLoaded rt a w = Inr (a, w)"
  by (simp add: ensureLoaded_def)

lemma getFs_fields:
  "getFs rt a = Inr a1 \<Longrightarrow> data a1 = data a \<and> dataLoaded a1 = dataLoaded a \<and> dbPath a1 = dbPath a"
  by (auto simp: getFs_def split: if_splits)

lemma getPath_fields:
  "data (getPath a) = data a \<and> dataLoaded (getPath a) = dataLoaded a \<and> dbPath (getPath a) = dbPath a"
  by (simp add: getPath_def)

lemma ensureLoaded_dataLoaded: "ensureLoaded rt a w = Inr (a1, w1) \<Longrightarrow> dataLoaded a1"
  by (auto simp: ensureLoaded_def Let_def getPath_fields dest: getFs_fields
      split: if_splits sum.splits parsed.splits)

lemma persist_fields:
  "persist rt a w = Inr (a1, w1) \<Longrightarrow> data a1 = data a \<and> dataLoaded a1 = dataLoaded a"
  by (auto simp: persist_def Let_def getPath_fields dest: getFs_fields split: sum.splits)

lemma putFile_result:
  assumes "putFile rt a w k v opts = Inr (u, a', w')"
  shows "\<exists>a1 w1 m. ensureLoaded rt a w = Inr (a1, w1)
           \<and> get_prop (default_param opts (JObj [])) ''metadata'' = Inr m
           \<and> dataLoaded a'
           \<and> data a' = (data a1)\<lparr>files := DAList.update k
                 \<lparr>r_value = default_param v (JStr []), r_metadata = js_or m (JObj [])\<rparr>
                 (files (data a1))\<rparr>"
  using assms
  by (auto simp: putFile_def Let_def split: sum.splits dest!: persist_fields ensureLoaded_dataLoaded)

lemma getFile_via_load:
  "ensureLoaded rt a w = Inr (a1, w1) \<Longrightarrow> getFile rt a w k =
     Inr (case read_property (files (data a1)) k of
            Missing \<Rightarrow> None
          | Inherited name \<Rightarrow> Some \<lparr>r_value = JUndefined, r_metadata = JObj []\<rparr>
          | Own r \<Rightarrow> Some \<lparr>r_value = r_value r, r_metadata = js_or (r_metadata r) (JObj [])\<rparr>,
          a1, w1)"
  by (simp add: getFile_def js_or_def split: property.splits)

lemma getFile_loaded:
  "dataLoaded a \<Longrightarrow> getFile rt a w k =
     Inr (case read_property (files (data a)) k of
            Missing \<Rightarrow> None
          | Inherited name \<Rightarrow> Some \<lparr>r_value = JUndefined, r_metadata = JObj []\<rparr>
          | Own r \<Rightarrow> Some \<lparr>r_value = r_value r, r_metadata = js_or (r_metadata r) (JObj [])\<rparr>,
          a, w)"
  by (simp add: getFile_via_load ensureLoaded_loaded)


section \<open>Files: writing and reading back\<close>

lemma lookup_None_iff: "DAList.lookup obj k = None \<longleftrightarrow> k \<notin> set (object_keys obj)"
  by (simp add: object_keys_def DAList.lookup.rep_eq map_of_eq_None_iff)

lemma read_property_own: "DAList.lookup obj k = Some v \<Longrightarrow> read_property obj k = Own v"
  by (simp add: read_property_def)

lemma read_property_missing:
  "DAList.lookup obj k = None \<Longrightarrow> k \<notin> set object_prototype \<Longrightarrow> read_property obj k = Missing"
  by (simp add: read_property_def)

lemma read_property_inherited:
  "DAList.lookup obj k = None \<Longrightarrow> k \<in> set object_prototype \<Longrightarrow>
   read_property obj k = Inherited k"
  by (simp add: read_property_def)

text \<open>
  The round trip of the file namespace, and where an absent key reads as \<open>null\<close>.
  A file written with a string value and a metadata object reads back as exactly that
  value and metadata, whatever the key. A stored record without metadata reads with the metadata
  \<^verbatim>\<open>{}\<close>. A key for which \<^verbatim>\<open>getFile\<close> returns \<open>null\<close> is absent; an absent key
  reads as \<open>null\<close> provided it is not the name of a member of
  \<^verbatim>\<open>Object.prototype\<close>.
\<close>

lemma file_round_trip:
  assumes "putFile rt a w k (JStr v) (JObj [(''metadata'', JObj m)]) = Inr (u, a', w')"
  shows "getFile rt a' w2 k = Inr (Some \<lparr>r_value = JStr v, r_metadata = JObj m\<rparr>, a', w2)"
  using putFile_result [OF assms]
  by (auto simp: getFile_loaded read_property_own default_param_def js_or_def)

lemma getFile_default_metadata:
  assumes "ensureLoaded rt b wb = Inr (b1, w1)"
    and "DAList.lookup (files (data b1)) k = Some r" and "r_metadata r = JUndefined"
  shows "getFile rt b wb k = Inr (Some \<lparr>r_value = r_value r, r_metadata = JObj []\<rparr>, b1, w1)"
  using assms by (simp add: getFile_via_load read_property_own js_or_def)

lemma getFile_null_only_if_absent:
  assumes "ensureLoaded rt b wb = Inr (b1, w1)" and "getFile rt b wb k = Inr (None, b1, w1)"
  shows "k \<notin> set (object_keys (files (data b1)))"
  using assms
  by (auto simp: getFile_via_load read_property_def lookup_None_iff [symmetric]
      split: option.splits if_splits)

lemma getFile_null_if_absent:
  assumes "ensureLoaded rt b wb = Inr (b1, w1)" and "k \<notin> set (object_keys (files (data b1)))"
    and "k \<notin> set object_prototype"
  shows "getFile rt b wb k = Inr (None, b1, w1)"
  using assms by (simp add: getFile_via_load read_property_missing lookup_None_iff)

text \<open>An absent key that names a member of \<^verbatim>\<open>Object.prototype\<close> reads as a record.\<close>

lemma getFile_absent_inherited:
  assumes "ensureLoaded rt b wb = Inr (b1, w1)" and "k \<notin> set (object_keys (files (data b1)))"
    and "k \<in> set object_prototype"
  shows "getFile rt b wb k = Inr (Some \<lparr>r_value = JUndefined, r_metadata = JObj []\<rparr>, b1, w1)"
  using assms by (simp add: getFile_via_load read_property_inherited lookup_None_iff)

lemma ensureLoaded_new:
  "ensureLoaded node_runtime (LocalFileDatabase ''./data/local-db.json'') no_file_world
     = Inr (loaded_adapter empty_document, no_file_world)"
  by (simp add: ensureLoaded_def getFs_def getPath_def mkdir_def read_and_parse_def readFile_def
      LocalFileDatabase_def node_runtime_def no_file_world_def loaded_adapter_def Let_def)

lemma empty_document_keys:
  "object_keys (files (data (loaded_adapter empty_document))) = []"
  "object_keys (settings (data (loaded_adapter empty_document))) = []"
  "object_keys (operations (data (loaded_adapter empty_document))) = []"
  by (simp_all add: loaded_adapter_def empty_document_def object_keys_def DAList.empty.rep_eq)

lemma read_property_empty:
  "read_property DAList.empty k = (if k \<in> set object_prototype then Inherited k else Missing)"
  by (simp add: read_property_def)

text \<open>
  Claim C5, at a new adapter on a path with no backing file. The files namespace is
  empty, so the key \<open>constructor\<close> is absent from it, and yet \<^verbatim>\<open>getFile\<close> does not
  return \<open>null\<close>: it returns the record \<^verbatim>\<open>{value: undefined, metadata: {}}\<close>, and
  the generic \<^verbatim>\<open>get\<close> returns \<open>undefined\<close>. The read \<^verbatim>\<open>this.data.files[fileId]\<close>
  finds the function that the namespace inherits under that name, and the test
  \<^verbatim>\<open>!record\<close> takes it for a stored record.
\<close>

theorem C5_absent_key_reads_as_record:
  "getFile node_runtime (LocalFileDatabase ''./data/local-db.json'') no_file_world ''constructor''
     = Inr (Some \<lparr>r_value = JUndefined, r_metadata = JObj []\<rparr>,
            loaded_adapter empty_document, no_file_world)
   \<and> object_keys (files (data (loaded_adapter empty_document))) = []
   \<and> get node_runtime (LocalFileDatabase ''./data/local-db.json'') no_file_world ''constructor''
     = Inr (JUndefined, loaded_adapter empty_document, no_file_world)"
proof -
  have f: "files (data (loaded_adapter empty_document)) = DAList.empty"
    by (simp add: loaded_adapter_def empty_document_def)
  have g: "getFile node_runtime (LocalFileDatabase ''./data/local-db.json'') no_file_world
      ''constructor''
     = Inr (Some \<lparr>r_value = JUndefined, r_metadata = JObj []\<rparr>,
            loaded_adapter empty_document, no_file_world)"
    by (simp add: getFile_via_load [OF ensureLoaded_new] f read_property_empty
        object_prototype_def)
  have "\<not> startsWith ''constructor'' settings_prefix"
    "\<not> startsWith ''constructor'' operation_prefix"
    by (simp_all add: startsWith_def settings_prefix_def operation_prefix_def)
  then have "get node_runtime (LocalFileDatabase ''./data/local-db.json'') no_file_world
      ''constructor'' = Inr (JUndefined, loaded_adapter empty_document, no_file_world)"
    by (simp add: get_def g)
  with g empty_document_keys(1) show ?thesis by simp
qed


section \<open>Listing files\<close>

lemma indexOf_absent: "x \<notin> set xs \<Longrightarrow> indexOf xs x = - 1"
  by (induction xs) (auto simp: Let_def)

lemma indexOf_lower: "- 1 \<le> indexOf xs x"
  by (induction xs) (auto simp: Let_def)

lemma nat_or_pos: "0 < nat_or n 1000"
  by (simp add: nat_or_def split: option.splits)

lemma listFiles_core_total: "\<exists>page. listFiles_core fs options = Inr page"
proof -
  have "0 < nat_or (opt_limit options) 1000" by (rule nat_or_pos)
  then show ?thesis
    by (auto simp: listFiles_core_def Let_def slice_def split: list.splits)
qed

lemma listFiles_core_unknown_cursor:
  assumes "c \<notin> set (matching_keys fs (str_or (opt_prefix options) []))"
  shows "listFiles_core fs (options\<lparr>opt_cursor := Some c\<rparr>)
           = listFiles_core fs (options\<lparr>opt_cursor := None\<rparr>)"
  using assms
  by (simp add: listFiles_core_def str_or_null_def indexOf_absent)

text \<open>
  Claim C4. With a cursor that is not among the keys matching the prefix,
  \<^verbatim>\<open>listFiles\<close> does not fail and returns what it returns with no cursor: the listing
  restarts from the first of the sorted matching keys.
\<close>

theorem C4_unknown_cursor_restarts:
  assumes "ensureLoaded rt a w = Inr (a1, w1)"
    and "c \<notin> set (matching_keys (files (data a1)) (str_or (opt_prefix options) []))"
  shows "(\<exists>page. listFiles rt a w (options\<lparr>opt_cursor := Some c\<rparr>) = Inr (page, a1, w1))
     \<and> listFiles rt a w (options\<lparr>opt_cursor := Some c\<rparr>)
         = listFiles rt a w (options\<lparr>opt_cursor := None\<rparr>)"
proof -
  obtain page where "listFiles_core (files (data a1)) (options\<lparr>opt_cursor := Some c\<rparr>) = Inr page"
    using listFiles_core_total by blast
  with assms show ?thesis
    by (simp add: listFiles_def listFiles_core_unknown_cursor)
qed

theorem C4_unknown_cursor_restarts_witness:
  "ensureLoaded node_runtime (loaded_adapter (empty_document\<lparr>files := two_files\<rparr>)) no_file_world
     = Inr (loaded_adapter (empty_document\<lparr>files := two_files\<rparr>), no_file_world)
   \<and> ''zzz'' \<notin> set (matching_keys two_files [])
   \<and> (\<exists>page. listFiles node_runtime (loaded_adapter (empty_document\<lparr>files := two_files\<rparr>))
          no_file_world
          \<lparr>opt_prefix = None, opt_limit = Some 1, opt_cursor = Some ''zzz'', opt_processed = None\<rparr>
        = Inr (page, loaded_adapter (empty_document\<lparr>files := two_files\<rparr>), no_file_world))
   \<and> listFiles node_runtime (loaded_adapter (empty_document\<lparr>files := two_files\<rparr>)) no_file_world
         \<lparr>opt_prefix = None, opt_limit = Some 1, opt_cursor = Some ''zzz'', opt_processed = None\<rparr>
     = listFiles node_runtime (loaded_adapter (empty_document\<lparr>files := two_files\<rparr>)) no_file_world
         \<lparr>opt_prefix = None, opt_limit = Some 1, opt_cursor = None, opt_processed = None\<rparr>"
proof -
  let ?a = "loaded_adapter (empty_document\<lparr>files := two_files\<rparr>)"
  let ?opts = "\<lparr>opt_prefix = None, opt_limit = Some 1, opt_cursor = None, opt_processed = None\<rparr>"
  have keys: "matching_keys two_files [] = [''doc1'', ''doc2'']"
    by (simp add: matching_keys_def two_files_def object_keys_def DAList.update.rep_eq
        DAList.empty.rep_eq startsWith_def)
  have load: "ensureLoaded node_runtime ?a no_file_world = Inr (?a, no_file_world)"
    by (simp add: ensureLoaded_def loaded_adapter_def)
  have absent: "''zzz'' \<notin> set (matching_keys (files (data ?a)) (str_or (opt_prefix ?opts) []))"
    by (simp add: loaded_adapter_def str_or_def keys)
  from C4_unknown_cursor_restarts [OF load absent]
  have "(\<exists>page. listFiles node_runtime ?a no_file_world (?opts\<lparr>opt_cursor := Some ''zzz''\<rparr>)
            = Inr (page, ?a, no_file_world))"
    and "listFiles node_runtime ?a no_file_world (?opts\<lparr>opt_cursor := Some ''zzz''\<rparr>)
          = listFiles node_runtime ?a no_file_world (?opts\<lparr>opt_cursor := None\<rparr>)"
    by blast+
  with load keys show ?thesis
    by auto
qed

lemma object_keys_empty: "object_keys (DAList.empty :: (string, 'v) alist) = []"
  by (simp add: object_keys_def DAList.empty.rep_eq)

lemma object_keys_update:
  "object_keys (DAList.update k v obj) = (if k \<in> set (object_keys obj) then object_keys obj else object_keys obj @ [k])"
  by (simp add: object_keys_def DAList.update.rep_eq update_keys)

lemma str_or_Some: "str_or (Some p) [] = p"
  by (simp add: str_or_def)

lemma distinct_object_keys: "distinct (object_keys obj)"
  using DAList.impl_of_distinct [of obj] by (simp add: object_keys_def)

lemma sorted_matching_keys: "sorted (matching_keys obj p)"
  by (simp add: matching_keys_def)

lemma distinct_matching_keys: "distinct (matching_keys obj p)"
  by (simp add: matching_keys_def distinct_object_keys)

lemma set_matching_keys:
  "set (matching_keys obj p) = {k \<in> set (object_keys obj). startsWith k p}"
  by (auto simp: matching_keys_def)

lemma indexOf_nth: "distinct xs \<Longrightarrow> i < length xs \<Longrightarrow> indexOf xs (xs ! i) = int i"
proof (induction xs arbitrary: i)
  case Nil
  then show ?case by simp
next
  case (Cons x xs)
  show ?case
  proof (cases i)
    case 0
    then show ?thesis by simp
  next
    case (Suc j)
    with Cons.prems have "xs ! j \<noteq> x" and "indexOf xs (xs ! j) = int j"
      using Cons.IH [of j] by auto
    with Suc show ?thesis by (simp add: Let_def)
  qed
qed

lemma listFiles_core_unfold:
  "listFiles_core fs options =
     (if nat_or (opt_limit options) 1000
           < length (slice (matching_keys fs (str_or (opt_prefix options) []))
               (resume_index (matching_keys fs (str_or (opt_prefix options) [])) (opt_cursor options))
               (resume_index (matching_keys fs (str_or (opt_prefix options) [])) (opt_cursor options)
                  + nat_or (opt_limit options) 1000 + 1))
      then (if slice (slice (matching_keys fs (str_or (opt_prefix options) []))
               (resume_index (matching_keys fs (str_or (opt_prefix options) [])) (opt_cursor options))
               (resume_index (matching_keys fs (str_or (opt_prefix options) [])) (opt_cursor options)
                  + nat_or (opt_limit options) 1000 + 1)) 0 (nat_or (opt_limit options) 1000) = []
            then Inl TypeError
            else Inr \<lparr>page_keys = map (\<lambda>name. (name, metadata_of fs name))
               (slice (slice (matching_keys fs (str_or (opt_prefix options) []))
               (resume_index (matching_keys fs (str_or (opt_prefix options) [])) (opt_cursor options))
               (resume_index (matching_keys fs (str_or (opt_prefix options) [])) (opt_cursor options)
                  + nat_or (opt_limit options) 1000 + 1)) 0 (nat_or (opt_limit options) 1000)),
               page_cursor = Some (last (slice (slice (matching_keys fs (str_or (opt_prefix options) []))
               (resume_index (matching_keys fs (str_or (opt_prefix options) [])) (opt_cursor options))
               (resume_index (matching_keys fs (str_or (opt_prefix options) [])) (opt_cursor options)
                  + nat_or (opt_limit options) 1000 + 1)) 0 (nat_or (opt_limit options) 1000))),
               list_complete = False\<rparr>)
      else Inr \<lparr>page_keys = map (\<lambda>name. (name, metadata_of fs name))
               (slice (matching_keys fs (str_or (opt_prefix options) []))
               (resume_index (matching_keys fs (str_or (opt_prefix options) [])) (opt_cursor options))
               (resume_index (matching_keys fs (str_or (opt_prefix options) [])) (opt_cursor options)
                  + nat_or (opt_limit options) 1000 + 1)),
             page_cursor = None, list_complete = True\<rparr>)"
  by (simp add: listFiles_core_def Let_def resume_index_def list.case_eq_if last_map)

lemma length_slice_more: "lim < length (slice xs i (Suc (i + lim))) \<longleftrightarrow> i + lim < length xs"
  by (auto simp: slice_def)

lemma slice_slice_take: "slice (slice xs i (Suc (i + lim))) 0 lim = take lim (drop i xs)"
  by (simp add: slice_def min_def)

lemma slice_no_more: "\<not> i + lim < length xs \<Longrightarrow> slice xs i (Suc (i + lim)) = take lim (drop i xs)"
  by (simp add: slice_def)

lemma last_take_drop:
  assumes "i + lim < length xs" and "0 < lim"
  shows "take lim (drop i xs) \<noteq> []" and "last (take lim (drop i xs)) = xs ! (i + lim - 1)"
proof -
  show ne: "take lim (drop i xs) \<noteq> []" using assms by auto
  have "length (take lim (drop i xs)) = lim" using assms by simp
  with ne assms show "last (take lim (drop i xs)) = xs ! (i + lim - 1)"
    by (simp add: last_conv_nth)
qed

lemma listFiles_core_page:
  "listFiles_core fs \<lparr>opt_prefix = Some p, opt_limit = Some l, opt_cursor = c, opt_processed = pr\<rparr>
    = Inr \<lparr>page_keys = map (\<lambda>k. (k, metadata_of fs k))
             (take (nat_or (Some l) 1000)
                (drop (resume_index (matching_keys fs p) c) (matching_keys fs p))),
           page_cursor =
             (if resume_index (matching_keys fs p) c + nat_or (Some l) 1000
                   < length (matching_keys fs p)
              then Some (matching_keys fs p !
                     (resume_index (matching_keys fs p) c + nat_or (Some l) 1000 - 1))
              else None),
           list_complete =
             (\<not> resume_index (matching_keys fs p) c + nat_or (Some l) 1000
                   < length (matching_keys fs p))\<rparr>"
proof (cases "resume_index (matching_keys fs p) c + nat_or (Some l) 1000 < length (matching_keys fs p)")
  case True
  with last_take_drop [OF True nat_or_pos] show ?thesis
    by (subst listFiles_core_unfold)
       (simp add: str_or_Some length_slice_more slice_slice_take)
next
  case False
  then show ?thesis
    by (subst listFiles_core_unfold)
       (simp add: str_or_Some length_slice_more slice_no_more)
qed

lemma listFiles_loaded:
  "dataLoaded a \<Longrightarrow> listFiles rt a w options =
     (case listFiles_core (files (data a)) options of
        Inl e \<Rightarrow> Inl e
      | Inr page \<Rightarrow> Inr (page, a, w))"
  by (simp add: listFiles_def ensureLoaded_def)

lemma resume_index_None: "resume_index ks None = 0"
  by (simp add: resume_index_def str_or_null_def)

lemma resume_index_nth:
  assumes "distinct ks" and "j < length ks" and "ks ! j \<noteq> []"
  shows "resume_index ks (Some (ks ! j)) = Suc j"
  using assms by (simp add: resume_index_def str_or_null_def indexOf_nth)

text \<open>
  Where no matching key is empty, following the cursor ends, and the pages hold the
  sorted matching keys, each once; the last page alone is complete and has no cursor.
\<close>

lemma follow_cursor_complete:
  assumes loaded: "dataLoaded a"
    and nonempty: "[] \<notin> set (matching_keys (files (data a)) p)"
  shows "length (matching_keys (files (data a)) p)
           - resume_index (matching_keys (files (data a)) p) c < n \<Longrightarrow>
     \<exists>pages. follow_cursor n rt a w p l c = Some (Inr pages)
       \<and> concat (map (\<lambda>pg. map fst (page_keys pg)) pages)
           = drop (resume_index (matching_keys (files (data a)) p) c)
               (matching_keys (files (data a)) p)
       \<and> pages \<noteq> []
       \<and> list_complete (last pages) \<and> page_cursor (last pages) = None
       \<and> list_all (\<lambda>pg. \<not> list_complete pg \<and> page_cursor pg \<noteq> None) (butlast pages)"
proof (induction n arbitrary: c)
  case 0
  then show ?case by simp
next
  case (Suc n)
  let ?ks = "matching_keys (files (data a)) p"
  let ?i = "resume_index ?ks c"
  let ?lim = "nat_or (Some l) 1000"
  let ?opts = "\<lparr>opt_prefix = Some p, opt_limit = Some l, opt_cursor = c, opt_processed = None\<rparr>"
  let ?page = "\<lparr>page_keys = map (\<lambda>k. (k, metadata_of (files (data a)) k)) (take ?lim (drop ?i ?ks)),
           page_cursor = (if ?i + ?lim < length ?ks then Some (?ks ! (?i + ?lim - 1)) else None),
           list_complete = (\<not> ?i + ?lim < length ?ks)\<rparr>"
  have pos: "0 < ?lim" by (rule nat_or_pos)
  have call: "listFiles rt a w ?opts = Inr (?page, a, w)"
    using loaded by (simp add: listFiles_loaded listFiles_core_page)
  have names: "map fst (page_keys ?page) = take ?lim (drop ?i ?ks)"
    by (simp add: comp_def)
  show ?case
  proof (cases "?i + ?lim < length ?ks")
    case False
    then have all: "take ?lim (drop ?i ?ks) = drop ?i ?ks" by simp
    have "follow_cursor (Suc n) rt a w p l c = Some (Inr [?page])"
      using False by (simp add: call)
    with False names all show ?thesis by simp
  next
    case True
    let ?j = "?i + ?lim - 1"
    have j: "?j < length ?ks" using True by simp
    then have "?ks ! ?j \<in> set ?ks" by simp
    with nonempty have kne: "?ks ! ?j \<noteq> []" by metis
    have next_index: "resume_index ?ks (Some (?ks ! ?j)) = ?i + ?lim"
      using resume_index_nth [OF distinct_matching_keys j kne] pos by simp
    have fuel: "length ?ks - resume_index ?ks (Some (?ks ! ?j)) < n"
      using Suc.prems True pos next_index by simp
    from Suc.IH [OF fuel] obtain pages where
      rest: "follow_cursor n rt a w p l (Some (?ks ! ?j)) = Some (Inr pages)"
      and cat: "concat (map (\<lambda>pg. map fst (page_keys pg)) pages) = drop (?i + ?lim) ?ks"
      and ne: "pages \<noteq> []"
      and lastp: "list_complete (last pages)" "page_cursor (last pages) = None"
      and others: "list_all (\<lambda>pg. \<not> list_complete pg \<and> page_cursor pg \<noteq> None) (butlast pages)"
      unfolding next_index by blast
    have run: "follow_cursor (Suc n) rt a w p l c = Some (Inr (?page # pages))"
      using True rest by (simp add: call)
    have "take ?lim (drop ?i ?ks) @ drop (?i + ?lim) ?ks = drop ?i ?ks"
      by (metis add.commute append_take_drop_id drop_drop)
    with names cat have cat': "concat (map (\<lambda>pg. map fst (page_keys pg)) (?page # pages)) = drop ?i ?ks"
      by simp
    from run cat' ne lastp others True show ?thesis by simp
  qed
qed

lemma pagination_complete:
  assumes "dataLoaded a" and "[] \<notin> set (object_keys (files (data a)))"
    and "length (matching_keys (files (data a)) p) < n"
  shows "\<exists>pages. follow_cursor n rt a w p l None = Some (Inr pages)
       \<and> concat (map (\<lambda>pg. map fst (page_keys pg)) pages) = matching_keys (files (data a)) p
       \<and> sorted (matching_keys (files (data a)) p)
       \<and> distinct (matching_keys (files (data a)) p)
       \<and> set (matching_keys (files (data a)) p)
           = {k \<in> set (object_keys (files (data a))). startsWith k p}
       \<and> pages \<noteq> []
       \<and> list_complete (last pages) \<and> page_cursor (last pages) = None
       \<and> list_all (\<lambda>pg. \<not> list_complete pg \<and> page_cursor pg \<noteq> None) (butlast pages)"
proof -
  from assms(2) have "[] \<notin> set (matching_keys (files (data a)) p)"
    by (simp add: set_matching_keys)
  from follow_cursor_complete [OF assms(1) this, of None n rt w l] assms(3)
  show ?thesis
    by (simp add: resume_index_None sorted_matching_keys distinct_matching_keys set_matching_keys)
qed

text \<open>
  The scenario of the specification: two files listed with limit 1. The first page has
  one key and a cursor; the call with that cursor returns the other key and is
  complete.
\<close>

lemma two_files_two_pages:
  "follow_cursor 3 node_runtime (loaded_adapter (empty_document\<lparr>files := two_files\<rparr>))
     no_file_world [] 1 None
   = Some (Inr [\<lparr>page_keys = [(''doc1'', JObj [(''tag'', JStr ''a'')])],
                  page_cursor = Some ''doc1'', list_complete = False\<rparr>,
                \<lparr>page_keys = [(''doc2'', JObj [(''tag'', JStr ''b'')])],
                  page_cursor = None, list_complete = True\<rparr>])"
proof -
  let ?a = "loaded_adapter (empty_document\<lparr>files := two_files\<rparr>)"
  have fs: "files (data ?a) = two_files" and ld: "dataLoaded ?a"
    by (simp_all add: loaded_adapter_def)
  have keys: "matching_keys two_files [] = [''doc1'', ''doc2'']"
    by (simp add: matching_keys_def two_files_def object_keys_def DAList.update.rep_eq
        DAList.empty.rep_eq startsWith_def)
  have md: "metadata_of two_files ''doc1'' = JObj [(''tag'', JStr ''a'')]"
    "metadata_of two_files ''doc2'' = JObj [(''tag'', JStr ''b'')]"
    by (simp_all add: metadata_of_def read_property_def two_files_def js_or_def)
  have r0: "resume_index [''doc1'', ''doc2''] None = 0"
    and r1: "resume_index [''doc1'', ''doc2''] (Some ''doc1'') = 1"
    by (simp_all add: resume_index_def str_or_null_def)
  have p1: "listFiles node_runtime ?a no_file_world
       \<lparr>opt_prefix = Some [], opt_limit = Some 1, opt_cursor = None, opt_processed = None\<rparr>
     = Inr (\<lparr>page_keys = [(''doc1'', JObj [(''tag'', JStr ''a'')])],
              page_cursor = Some ''doc1'', list_complete = False\<rparr>, ?a, no_file_world)"
    using ld by (simp add: listFiles_loaded fs listFiles_core_page keys md r0 nat_or_def)
  have p2: "listFiles node_runtime ?a no_file_world
       \<lparr>opt_prefix = Some [], opt_limit = Some 1, opt_cursor = Some ''doc1'', opt_processed = None\<rparr>
     = Inr (\<lparr>page_keys = [(''doc2'', JObj [(''tag'', JStr ''b'')])],
              page_cursor = None, list_complete = True\<rparr>, ?a, no_file_world)"
    using ld by (simp add: listFiles_loaded fs listFiles_core_page keys md r1 nat_or_def)
  have three: "(3::nat) = Suc (Suc (Suc 0))" by simp
  show ?thesis
    unfolding three using p1 p2 by simp
qed

lemma matching_keys_empty_key_files: "matching_keys empty_key_files [] = [[], ''a'']"
  by (simp add: matching_keys_def empty_key_files_def object_keys_update object_keys_empty
      startsWith_def)

lemma metadata_of_empty_key: "metadata_of empty_key_files [] = JObj []"
  by (simp add: metadata_of_def read_property_def empty_key_files_def js_or_def)

lemma empty_key_page:
  "c = None \<or> c = Some [] \<Longrightarrow>
   listFiles_core empty_key_files
      \<lparr>opt_prefix = Some [], opt_limit = Some 1, opt_cursor = c, opt_processed = None\<rparr>
    = Inr \<lparr>page_keys = [([], JObj [])], page_cursor = Some [], list_complete = False\<rparr>"
  by (auto simp: listFiles_core_def matching_keys_empty_key_files metadata_of_empty_key
      str_or_def nat_or_def str_or_null_def slice_def Let_def)

text \<open>The store with the empty key is what two calls of \<^verbatim>\<open>put\<close> leave in a new adapter.\<close>

lemma empty_key_files_reached:
  "\<exists>a1 w1 a2 w2.
     put node_runtime (LocalFileDatabase ''./data/local-db.json'') no_file_world
       [] (JStr ''y'') JUndefined = Inr ((), a1, w1)
     \<and> put node_runtime a1 w1 ''a'' (JStr ''x'') JUndefined = Inr ((), a2, w2)
     \<and> dataLoaded a2 \<and> files (data a2) = empty_key_files"
  by (simp add: put_def putFile_def ensureLoaded_def persist_def getFs_def getPath_def mkdir_def
      readFile_def writeFile_def read_and_parse_def LocalFileDatabase_def node_runtime_def
      no_file_world_def default_param_def js_or_def Let_def startsWith_def settings_prefix_def
      operation_prefix_def empty_key_files_def empty_document_def)

text \<open>
  Claim C1, at a store whose files have the keys \<^verbatim>\<open>""\<close> and \<^verbatim>\<open>"a"\<close>, listed with
  limit 1. The first page holds the empty key and hands it out as the cursor; a call
  with that cursor takes it for no cursor and returns the same page. A caller that
  follows the cursor never reaches a complete page, however many calls it makes, and
  never sees the key \<^verbatim>\<open>"a"\<close>.
\<close>

theorem C1_empty_key_cursor_repeats:
  "matching_keys (files (data (loaded_adapter (empty_document\<lparr>files := empty_key_files\<rparr>)))) []
     = [[], ''a'']
   \<and> listFiles node_runtime (loaded_adapter (empty_document\<lparr>files := empty_key_files\<rparr>)) no_file_world
       \<lparr>opt_prefix = Some [], opt_limit = Some 1, opt_cursor = None, opt_processed = None\<rparr>
     = Inr (\<lparr>page_keys = [([], JObj [])], page_cursor = Some [], list_complete = False\<rparr>,
            loaded_adapter (empty_document\<lparr>files := empty_key_files\<rparr>), no_file_world)
   \<and> listFiles node_runtime (loaded_adapter (empty_document\<lparr>files := empty_key_files\<rparr>)) no_file_world
       \<lparr>opt_prefix = Some [], opt_limit = Some 1, opt_cursor = Some [], opt_processed = None\<rparr>
     = Inr (\<lparr>page_keys = [([], JObj [])], page_cursor = Some [], list_complete = False\<rparr>,
            loaded_adapter (empty_document\<lparr>files := empty_key_files\<rparr>), no_file_world)
   \<and> follow_cursor n node_runtime (loaded_adapter (empty_document\<lparr>files := empty_key_files\<rparr>))
       no_file_world [] 1 None = None"
proof -
  let ?a = "loaded_adapter (empty_document\<lparr>files := empty_key_files\<rparr>)"
  have fs: "files (data ?a) = empty_key_files" and ld: "dataLoaded ?a"
    by (simp_all add: loaded_adapter_def)
  have call: "listFiles node_runtime ?a no_file_world
       \<lparr>opt_prefix = Some [], opt_limit = Some 1, opt_cursor = c, opt_processed = None\<rparr>
     = Inr (\<lparr>page_keys = [([], JObj [])], page_cursor = Some [], list_complete = False\<rparr>,
            ?a, no_file_world)" if "c = None \<or> c = Some []" for c
    using empty_key_page [OF that] ld by (simp add: listFiles_loaded fs)
  have loop: "follow_cursor n node_runtime ?a no_file_world [] 1 c = None"
    if "c = None \<or> c = Some []" for c
    using that
  proof (induction n arbitrary: c)
    case 0
    then show ?case by simp
  next
    case (Suc n)
    from Suc.IH [of "Some []"] call [OF Suc.prems] show ?case by simp
  qed
  from call [of None] call [of "Some []"] loop [of None] fs matching_keys_empty_key_files
  show ?thesis by simp
qed


section \<open>Settings\<close>

lemma getSetting_via_load:
  "ensureLoaded rt a w = Inr (a1, w1) \<Longrightarrow>
   getSetting rt a w key = Inr (js_coalesce (obj_get (settings (data a1)) key) JNull, a1, w1)"
  by (simp add: getSetting_def)

lemma putSetting_result:
  assumes "putSetting rt a w k v = Inr (u, a', w')"
  shows "\<exists>a1 w1. ensureLoaded rt a w = Inr (a1, w1) \<and> dataLoaded a'
           \<and> data a' = (data a1)\<lparr>settings := DAList.update k v (settings (data a1))\<rparr>"
  using assms
  by (auto simp: putSetting_def Let_def split: sum.splits dest!: persist_fields ensureLoaded_dataLoaded)

lemma nullish_iff: "nullish v \<longleftrightarrow> v = JUndefined \<or> v = JNull"
  by (cases v) simp_all

lemma js_coalesce_keep: "v \<noteq> JNull \<Longrightarrow> v \<noteq> JUndefined \<Longrightarrow> js_coalesce v d = v"
  by (cases v) (simp_all add: js_coalesce_def)

lemma obj_get_own: "DAList.lookup obj k = Some v \<Longrightarrow> obj_get obj k = v"
  by (simp add: obj_get_def read_property_def)

lemma obj_get_missing:
  "DAList.lookup obj k = None \<Longrightarrow> k \<notin> set object_prototype \<Longrightarrow> obj_get obj k = JUndefined"
  by (simp add: obj_get_def read_property_def)

lemma obj_get_inherited:
  "DAList.lookup obj k = None \<Longrightarrow> k \<in> set object_prototype \<Longrightarrow> obj_get obj k = JBuiltin k"
  by (simp add: obj_get_def read_property_def)

text \<open>No member of \<^verbatim>\<open>Object.prototype\<close> has a name with the settings prefix.\<close>

lemma setting_key_not_inherited: "startsWith key settings_prefix \<Longrightarrow> key \<notin> set object_prototype"
  by (auto simp: startsWith_def settings_prefix_def object_prototype_def)

lemma getSetting_stored:
  assumes "ensureLoaded rt a w = Inr (a1, w1)" and "DAList.lookup (settings (data a1)) key = Some v"
  shows "getSetting rt a w key = Inr (if v = JNull \<or> v = JUndefined then JNull else v, a1, w1)"
  using assms by (auto simp: getSetting_via_load obj_get_own js_coalesce_def nullish_iff)

lemma getSetting_absent:
  assumes "ensureLoaded rt a w = Inr (a1, w1)" and "DAList.lookup (settings (data a1)) key = None"
    and "key \<notin> set object_prototype"
  shows "getSetting rt a w key = Inr (JNull, a1, w1)"
  using assms by (simp add: getSetting_via_load obj_get_missing js_coalesce_def)

lemma get_setting: "startsWith key settings_prefix \<Longrightarrow> get rt a w key = getSetting rt a w key"
  by (simp add: get_def)

text \<open>Through the generic interface an absent setting always reads as \<open>null\<close>.\<close>

lemma get_setting_absent:
  assumes "ensureLoaded rt a w = Inr (a1, w1)" and "DAList.lookup (settings (data a1)) key = None"
    and "startsWith key settings_prefix"
  shows "get rt a w key = Inr (JNull, a1, w1)"
  using getSetting_absent [OF assms(1,2) setting_key_not_inherited [OF assms(3)]] assms(3)
  by (simp add: get_def)

text \<open>
  What is read right after \<^verbatim>\<open>putSetting\<close> (the key \<^verbatim>\<open>__proto__\<close> apart, whose
  assignment does not make a property).
\<close>

lemma putSetting_getSetting:
  assumes "putSetting rt b wb key v = Inr (u, b', wb')" and "key \<noteq> ''__proto__''"
  shows "getSetting rt b' w2 key = Inr (if v = JNull \<or> v = JUndefined then JNull else v, b', w2)"
  using putSetting_result [OF assms(1)]
  by (auto simp: getSetting_via_load ensureLoaded_loaded obj_get_own js_coalesce_def nullish_iff)

text \<open>An absent key that names a member of \<^verbatim>\<open>Object.prototype\<close> reads as that member.\<close>

lemma getSetting_absent_inherited:
  assumes "ensureLoaded rt a w = Inr (a1, w1)" and "DAList.lookup (settings (data a1)) key = None"
    and "key \<in> set object_prototype"
  shows "getSetting rt a w key = Inr (JBuiltin key, a1, w1)"
  using assms by (simp add: getSetting_via_load obj_get_inherited js_coalesce_def)

text \<open>
  Claim C10, amended. \<^verbatim>\<open>getSetting\<close> returns \<open>null\<close> for a key that is absent from
  the settings namespace and is not the name of a member of \<^verbatim>\<open>Object.prototype\<close>,
  and for a key whose stored value is \<open>null\<close> or \<open>undefined\<close>; it returns every
  other stored value as it is. The generic \<^verbatim>\<open>get\<close> on a key with the settings
  prefix is \<^verbatim>\<open>getSetting\<close>, and no such key is the name of a member of
  \<^verbatim>\<open>Object.prototype\<close>.
\<close>

theorem C10_getSetting_null_or_stored_value:
  "ensureLoaded rt a w = Inr (a1, w1) \<longrightarrow>
      (DAList.lookup (settings (data a1)) key = None \<and> key \<notin> set object_prototype \<longrightarrow>
         getSetting rt a w key = Inr (JNull, a1, w1))
    \<and> (DAList.lookup (settings (data a1)) key = Some JNull
         \<or> DAList.lookup (settings (data a1)) key = Some JUndefined \<longrightarrow>
         getSetting rt a w key = Inr (JNull, a1, w1))
    \<and> (\<forall>v. DAList.lookup (settings (data a1)) key = Some v \<and> v \<noteq> JNull \<and> v \<noteq> JUndefined \<longrightarrow>
         getSetting rt a w key = Inr (v, a1, w1))
    \<and> (startsWith key settings_prefix \<longrightarrow>
         key \<notin> set object_prototype \<and> get rt a w key = getSetting rt a w key)"
  by (auto simp: getSetting_stored getSetting_absent get_setting dest: setting_key_not_inherited)

lemma getWithMetadata_setting:
  "startsWith key settings_prefix \<Longrightarrow> ensureLoaded rt a w = Inr (a1, w1) \<Longrightarrow>
   getWithMetadata rt a w key =
     Inr (if truthy (js_coalesce (obj_get (settings (data a1)) key) JNull)
          then Some \<lparr>r_value = js_coalesce (obj_get (settings (data a1)) key) JNull,
                      r_metadata = JObj []\<rparr>
          else None, a1, w1)"
  by (simp add: getWithMetadata_def getSetting_via_load)

lemma truthy_not_nullish: "truthy v \<Longrightarrow> \<not> nullish v"
  by (cases v) simp_all

text \<open>
  Claim C3, amended. For a key with the settings prefix, \<^verbatim>\<open>getWithMetadata\<close> returns
  \<^verbatim>\<open>{value: v, metadata: {}}\<close> when the key is present with a truthy value \<open>v\<close>, and
  \<open>null\<close> when the key is absent or its stored value is \<open>null\<close>.
\<close>

theorem C3_getWithMetadata_truthy_setting:
  "startsWith key settings_prefix \<and> ensureLoaded rt a w = Inr (a1, w1) \<longrightarrow>
     (\<forall>v. DAList.lookup (settings (data a1)) key = Some v \<and> truthy v \<longrightarrow>
        getWithMetadata rt a w key = Inr (Some \<lparr>r_value = v, r_metadata = JObj []\<rparr>, a1, w1))
   \<and> (DAList.lookup (settings (data a1)) key = None
        \<or> DAList.lookup (settings (data a1)) key = Some JNull \<longrightarrow>
        getWithMetadata rt a w key = Inr (None, a1, w1))"
  by (auto simp: getWithMetadata_setting obj_get_own obj_get_missing setting_key_not_inherited
      js_coalesce_def truthy_not_nullish)

lemma loaded_adapter_load:
  "ensureLoaded rt (loaded_adapter d) w = Inr (loaded_adapter d, w)"
  by (simp add: ensureLoaded_def loaded_adapter_def)

lemma example_settings_lookup:
  "DAList.lookup example_settings ''manage@sysConfig@theme'' = Some (JStr ''dark'')"
  "DAList.lookup example_settings ''manage@sysConfig@flag'' = Some (JBool False)"
  "DAList.lookup example_settings ''manage@sysConfig@none'' = Some JNull"
  "DAList.lookup example_settings ''manage@sysConfig@other'' = None"
  by (simp_all add: example_settings_def)

lemma settings_keys_prefixed:
  "startsWith ''manage@sysConfig@theme'' settings_prefix"
  "startsWith ''manage@sysConfig@flag'' settings_prefix"
  "startsWith ''manage@sysConfig@none'' settings_prefix"
  "startsWith ''manage@sysConfig@other'' settings_prefix"
  by (simp_all add: startsWith_def settings_prefix_def)

text \<open>
  Claim C3 as stated fails: a key that is present with the value \<open>null\<close>, or with the
  value \<open>false\<close>, reads as \<open>null\<close>, not as the wrapped value.
\<close>

theorem C3_present_falsy_setting_counterexample:
  "startsWith ''manage@sysConfig@none'' settings_prefix
   \<and> DAList.lookup (settings (data (loaded_adapter (empty_document\<lparr>settings := example_settings\<rparr>))))
         ''manage@sysConfig@none'' = Some JNull
   \<and> getWithMetadata node_runtime (loaded_adapter (empty_document\<lparr>settings := example_settings\<rparr>))
         no_file_world ''manage@sysConfig@none''
       = Inr (None, loaded_adapter (empty_document\<lparr>settings := example_settings\<rparr>), no_file_world)
   \<and> startsWith ''manage@sysConfig@flag'' settings_prefix
   \<and> DAList.lookup (settings (data (loaded_adapter (empty_document\<lparr>settings := example_settings\<rparr>))))
         ''manage@sysConfig@flag'' = Some (JBool False)
   \<and> getWithMetadata node_runtime (loaded_adapter (empty_document\<lparr>settings := example_settings\<rparr>))
         no_file_world ''manage@sysConfig@flag''
       = Inr (None, loaded_adapter (empty_document\<lparr>settings := example_settings\<rparr>), no_file_world)"
proof -
  let ?a = "loaded_adapter (empty_document\<lparr>settings := example_settings\<rparr>)"
  have s: "settings (data ?a) = example_settings" by (simp add: loaded_adapter_def)
  show ?thesis
    by (simp add: getWithMetadata_setting [OF _ loaded_adapter_load] settings_keys_prefixed s
        example_settings_lookup obj_get_own js_coalesce_def)
qed

theorem C3_getWithMetadata_truthy_setting_witness:
  "getWithMetadata node_runtime (loaded_adapter (empty_document\<lparr>settings := example_settings\<rparr>))
         no_file_world ''manage@sysConfig@theme''
       = Inr (Some \<lparr>r_value = JStr ''dark'', r_metadata = JObj []\<rparr>,
              loaded_adapter (empty_document\<lparr>settings := example_settings\<rparr>), no_file_world)
   \<and> getWithMetadata node_runtime (loaded_adapter (empty_document\<lparr>settings := example_settings\<rparr>))
         no_file_world ''manage@sysConfig@other''
       = Inr (None, loaded_adapter (empty_document\<lparr>settings := example_settings\<rparr>), no_file_world)"
proof -
  let ?a = "loaded_adapter (empty_document\<lparr>settings := example_settings\<rparr>)"
  have s: "settings (data ?a) = example_settings" by (simp add: loaded_adapter_def)
  from C3_getWithMetadata_truthy_setting [of "''manage@sysConfig@theme''" node_runtime ?a
      no_file_world ?a no_file_world]
    C3_getWithMetadata_truthy_setting [of "''manage@sysConfig@other''" node_runtime ?a
      no_file_world ?a no_file_world]
  show ?thesis
    by (simp add: settings_keys_prefixed loaded_adapter_load s example_settings_lookup)
qed


lemma undefined_setting_lookup:
  "DAList.lookup undefined_setting ''manage@sysConfig@unset'' = Some JUndefined"
  by (simp add: undefined_setting_def)

text \<open>
  The store with the \<open>undefined\<close> setting is what \<^verbatim>\<open>put\<close> with no value leaves
  in a new adapter.
\<close>

lemma undefined_setting_reached:
  "\<exists>a1 w1.
     put node_runtime (LocalFileDatabase ''./data/local-db.json'') no_file_world
       ''manage@sysConfig@unset'' JUndefined JUndefined = Inr ((), a1, w1)
     \<and> dataLoaded a1 \<and> settings (data a1) = undefined_setting"
  by (simp add: put_def putSetting_def ensureLoaded_def persist_def getFs_def getPath_def mkdir_def
      readFile_def writeFile_def read_and_parse_def LocalFileDatabase_def node_runtime_def
      no_file_world_def Let_def startsWith_def settings_prefix_def undefined_setting_def
      empty_document_def)

text \<open>
  Claim C10 as stated fails. A key stored with the value \<open>undefined\<close>, which is not
  \<open>null\<close>, reads as \<open>null\<close> and not as the stored value. And the key
  \<open>toString\<close>, absent from the empty settings namespace, reads as the method that
  the namespace inherits under that name and not as \<open>null\<close>.
\<close>

theorem C10_undefined_and_inherited_counterexample:
  "DAList.lookup (settings (data (loaded_adapter (empty_document\<lparr>settings := undefined_setting\<rparr>))))
       ''manage@sysConfig@unset'' = Some JUndefined
   \<and> JUndefined \<noteq> JNull
   \<and> getSetting node_runtime (loaded_adapter (empty_document\<lparr>settings := undefined_setting\<rparr>))
       no_file_world ''manage@sysConfig@unset''
     = Inr (JNull, loaded_adapter (empty_document\<lparr>settings := undefined_setting\<rparr>), no_file_world)
   \<and> DAList.lookup (settings (data (loaded_adapter empty_document))) ''toString'' = None
   \<and> getSetting node_runtime (loaded_adapter empty_document) no_file_world ''toString''
     = Inr (JBuiltin ''toString'', loaded_adapter empty_document, no_file_world)
   \<and> JBuiltin ''toString'' \<noteq> JNull"
proof -
  let ?a = "loaded_adapter (empty_document\<lparr>settings := undefined_setting\<rparr>)"
  have s: "settings (data ?a) = undefined_setting" by (simp add: loaded_adapter_def)
  have e: "settings (data (loaded_adapter empty_document)) = DAList.empty"
    by (simp add: loaded_adapter_def empty_document_def)
  have t: "''toString'' \<in> set object_prototype" by (simp add: object_prototype_def)
  have "getSetting node_runtime ?a no_file_world ''manage@sysConfig@unset''
      = Inr (JNull, ?a, no_file_world)"
    by (simp add: getSetting_stored [OF loaded_adapter_load] s undefined_setting_lookup)
  moreover have "getSetting node_runtime (loaded_adapter empty_document) no_file_world ''toString''
      = Inr (JBuiltin ''toString'', loaded_adapter empty_document, no_file_world)"
    by (simp add: getSetting_absent_inherited [OF loaded_adapter_load _ t] e)
  ultimately show ?thesis
    by (simp add: s e undefined_setting_lookup)
qed

theorem C10_getSetting_null_or_stored_value_witness:
  "getSetting node_runtime (loaded_adapter (empty_document\<lparr>settings := example_settings\<rparr>))
       no_file_world ''manage@sysConfig@other''
     = Inr (JNull, loaded_adapter (empty_document\<lparr>settings := example_settings\<rparr>), no_file_world)
   \<and> getSetting node_runtime (loaded_adapter (empty_document\<lparr>settings := example_settings\<rparr>))
       no_file_world ''manage@sysConfig@none''
     = Inr (JNull, loaded_adapter (empty_document\<lparr>settings := example_settings\<rparr>), no_file_world)
   \<and> getSetting node_runtime (loaded_adapter (empty_document\<lparr>settings := undefined_setting\<rparr>))
       no_file_world ''manage@sysConfig@unset''
     = Inr (JNull, loaded_adapter (empty_document\<lparr>settings := undefined_setting\<rparr>), no_file_world)
   \<and> getSetting node_runtime (loaded_adapter (empty_document\<lparr>settings := example_settings\<rparr>))
       no_file_world ''manage@sysConfig@flag''
     = Inr (JBool False, loaded_adapter (empty_document\<lparr>settings := example_settings\<rparr>),
            no_file_world)
   \<and> get node_runtime (loaded_adapter (empty_document\<lparr>settings := example_settings\<rparr>))
       no_file_world ''manage@sysConfig@flag''
     = getSetting node_runtime (loaded_adapter (empty_document\<lparr>settings := example_settings\<rparr>))
       no_file_world ''manage@sysConfig@flag''"
proof -
  let ?a = "loaded_adapter (empty_document\<lparr>settings := example_settings\<rparr>)"
  let ?b = "loaded_adapter (empty_document\<lparr>settings := undefined_setting\<rparr>)"
  have s: "settings (data ?a) = example_settings" "settings (data ?b) = undefined_setting"
    by (simp_all add: loaded_adapter_def)
  have o: "''manage@sysConfig@other'' \<notin> set object_prototype"
    by (simp add: object_prototype_def)
  have A: "getSetting node_runtime ?a no_file_world ''manage@sysConfig@other''
             = Inr (JNull, ?a, no_file_world)"
    using C10_getSetting_null_or_stored_value [of node_runtime ?a no_file_world ?a
        no_file_world "''manage@sysConfig@other''"] o
    by (simp add: loaded_adapter_load s example_settings_lookup)
  have B: "getSetting node_runtime ?a no_file_world ''manage@sysConfig@none''
             = Inr (JNull, ?a, no_file_world)"
    using C10_getSetting_null_or_stored_value [of node_runtime ?a no_file_world ?a
        no_file_world "''manage@sysConfig@none''"]
    by (simp add: loaded_adapter_load s example_settings_lookup)
  have U: "getSetting node_runtime ?b no_file_world ''manage@sysConfig@unset''
             = Inr (JNull, ?b, no_file_world)"
    using C10_getSetting_null_or_stored_value [of node_runtime ?b no_file_world ?b
        no_file_world "''manage@sysConfig@unset''"]
    by (simp add: loaded_adapter_load s undefined_setting_lookup)
  have C: "getSetting node_runtime ?a no_file_world ''manage@sysConfig@flag''
             = Inr (JBool False, ?a, no_file_world)"
    and D: "get node_runtime ?a no_file_world ''manage@sysConfig@flag''
             = getSetting node_runtime ?a no_file_world ''manage@sysConfig@flag''"
    using C10_getSetting_null_or_stored_value [of node_runtime ?a no_file_world ?a
        no_file_world "''manage@sysConfig@flag''"]
    by (simp_all add: loaded_adapter_load s example_settings_lookup settings_keys_prefixed)
  from A B U C D show ?thesis by blast
qed


section \<open>Index operations\<close>

lemma listIndexOperations_via_load:
  "ensureLoaded rt a w = Inr (a1, w1) \<Longrightarrow>
   listIndexOperations rt a w options
     = Inr (listIndexOperations_core (operations (data a1)) options, a1, w1)"
  by (simp add: listIndexOperations_def)

lemma getIndexOperation_via_load:
  "ensureLoaded rt a w = Inr (a1, w1) \<Longrightarrow>
   getIndexOperation rt a w oid =
     Inr (case read_property (operations (data a1)) oid of
            Missing \<Rightarrow> None
          | Inherited name \<Rightarrow>
              Some \<lparr>op_type = JUndefined, op_timestamp = None, op_data = JUndefined,
                     op_processed = Some False\<rparr>
          | Own opn \<Rightarrow> Some (opn\<lparr>op_processed := Some (bool_coalesce (op_processed opn) False)\<rparr>),
          a1, w1)"
  by (simp add: getIndexOperation_def bool_coalesce_def split: property.splits)

lemma entry_out_fst: "fst (entry_out e) = fst e"
  by (simp add: entry_out_def)

lemma sort_timestamp_entry_out: "sort_timestamp (entry_out e) = sort_timestamp e"
  by (simp add: sort_timestamp_def entry_out_def)

lemma lookup_entry:
  "(k, v) \<in> set (object_entries obj) \<longleftrightarrow> DAList.lookup obj k = Some v"
  by (simp add: object_entries_def DAList.lookup.rep_eq)

lemma distinct_entry_keys: "distinct (map fst (object_entries obj))"
  using DAList.impl_of_distinct [of obj] by (simp add: object_entries_def)

lemma listIndexOperations_core_take:
  "listIndexOperations_core ops options
     = take (nat_or (opt_limit options) 1000) (passing_entries ops (opt_processed options))"
  by (simp add: listIndexOperations_core_def passing_entries_def slice_def Let_def take_map)

lemma sorted_passing_entries: "sorted (map sort_timestamp (passing_entries ops pf))"
proof -
  have "map sort_timestamp (passing_entries ops pf)
          = map sort_timestamp (filter (passes pf) (sort_key sort_timestamp (object_entries ops)))"
    by (simp add: passing_entries_def comp_def sort_timestamp_entry_out)
  then show ?thesis by (simp add: sorted_filter)
qed

lemma distinct_passing_entries: "distinct (map fst (passing_entries ops pf))"
proof -
  have "distinct (map fst (sort_key sort_timestamp (object_entries ops)))"
    using distinct_entry_keys [of ops] by (simp add: distinct_map)
  then have "distinct (map fst (filter (passes pf) (sort_key sort_timestamp (object_entries ops))))"
    by (rule distinct_map_filter)
  moreover have "map fst (passing_entries ops pf)
      = map fst (filter (passes pf) (sort_key sort_timestamp (object_entries ops)))"
    by (simp add: passing_entries_def comp_def entry_out_fst)
  ultimately show ?thesis by simp
qed

lemma set_passing_entries:
  "set (passing_entries ops pf) = entry_out ` {e \<in> set (object_entries ops). passes pf e}"
  by (auto simp: passing_entries_def)

text \<open>
  Claim C6. The result of \<^verbatim>\<open>listIndexOperations\<close> is the first \<open>limit\<close> entries
  (1000 when the limit is missing, or 0) of a list that is sorted ascending by
  timestamp, a missing timestamp counting as 0, and holds each stored record at most
  once. With the option
  \<^verbatim>\<open>processed: true\<close> that list holds exactly the stored records whose flag is
  \<open>true\<close>; with the option undefined or null it holds every stored record.
\<close>

theorem C6_listIndexOperations_filter_sort_limit:
  "ensureLoaded rt a w = Inr (a1, w1) \<longrightarrow>
     (\<exists>res full. listIndexOperations rt a w options = Inr (res, a1, w1)
        \<and> res = take (nat_or (opt_limit options) 1000) full
        \<and> sorted (map sort_timestamp full)
        \<and> distinct (map fst full)
        \<and> (opt_processed options = Some True \<longrightarrow>
             set full = entry_out ` {e \<in> set (object_entries (operations (data a1))).
                                      op_processed (snd e) = Some True}
             \<and> list_all (\<lambda>e. op_processed (snd e) = Some True) res)
        \<and> (opt_processed options = None \<longrightarrow>
             set full = entry_out ` set (object_entries (operations (data a1)))))
   \<and> (op_timestamp (snd e) = None \<longrightarrow> sort_timestamp e = 0)
   \<and> (opt_limit options = None \<longrightarrow> nat_or (opt_limit options) 1000 = 1000)
   \<and> (opt_limit options = Some n \<and> 0 < n \<longrightarrow> nat_or (opt_limit options) 1000 = n)"
proof -
  let ?ops = "operations (data a1)"
  let ?full = "passing_entries ?ops (opt_processed options)"
  let ?res = "take (nat_or (opt_limit options) 1000) ?full"
  have flt: "set ?full = entry_out ` {e \<in> set (object_entries ?ops). op_processed (snd e) = Some True}"
    if "opt_processed options = Some True"
    using that by (simp add: set_passing_entries passes_def)
  have "list_all (\<lambda>e. op_processed (snd e) = Some True) ?full"
    if "opt_processed options = Some True"
    using flt [OF that] by (auto simp: list_all_iff entry_out_def bool_coalesce_def)
  then have only: "list_all (\<lambda>e. op_processed (snd e) = Some True) ?res"
    if "opt_processed options = Some True"
    using that by (auto simp: list_all_iff dest: in_set_takeD)
  have nof: "set ?full = entry_out ` set (object_entries ?ops)"
    if "opt_processed options = None"
    using that by (simp add: set_passing_entries passes_def)
  have "listIndexOperations rt a w options = Inr (?res, a1, w1)"
    if "ensureLoaded rt a w = Inr (a1, w1)"
    using that by (simp add: listIndexOperations_via_load listIndexOperations_core_take)
  with flt only nof sorted_passing_entries [of ?ops "opt_processed options"]
    distinct_passing_entries [of ?ops "opt_processed options"]
  show ?thesis
    by (auto simp: sort_timestamp_def int_or_def nat_or_def)
qed

text \<open>
  Claim C9. For a stored record without the \<open>processed\<close> field,
  \<^verbatim>\<open>getIndexOperation\<close> returns it with the flag \<open>false\<close>, and yet
  \<^verbatim>\<open>listIndexOperations\<close> leaves it out both for \<^verbatim>\<open>processed: true\<close> and for
  \<^verbatim>\<open>processed: false\<close>: the filter compares the stored field.
\<close>

theorem C9_missing_processed_flag:
  "ensureLoaded rt a w = Inr (a1, w1)
     \<and> DAList.lookup (operations (data a1)) oid = Some opn \<and> op_processed opn = None \<longrightarrow>
   getIndexOperation rt a w oid = Inr (Some (opn\<lparr>op_processed := Some False\<rparr>), a1, w1)
   \<and> (\<exists>res. listIndexOperations rt a w (options\<lparr>opt_processed := Some True\<rparr>) = Inr (res, a1, w1)
          \<and> oid \<notin> set (map fst res))
   \<and> (\<exists>res. listIndexOperations rt a w (options\<lparr>opt_processed := Some False\<rparr>) = Inr (res, a1, w1)
          \<and> oid \<notin> set (map fst res))"
proof (intro impI, elim conjE)
  assume load: "ensureLoaded rt a w = Inr (a1, w1)"
    and stored: "DAList.lookup (operations (data a1)) oid = Some opn"
    and missing: "op_processed opn = None"
  let ?ops = "operations (data a1)"
  have excluded: "oid \<notin> set (map fst (listIndexOperations_core ?ops (options\<lparr>opt_processed := Some b\<rparr>)))"
    for b
  proof
    assume "oid \<in> set (map fst (listIndexOperations_core ?ops (options\<lparr>opt_processed := Some b\<rparr>)))"
    then obtain x where x: "x \<in> set (passing_entries ?ops (Some b))" and "fst x = oid"
      by (auto simp: listIndexOperations_core_take dest: in_set_takeD)
    then obtain e where e: "e \<in> set (object_entries ?ops)" "passes (Some b) e" "fst e = oid"
      by (auto simp: set_passing_entries entry_out_fst)
    from e(1,3) have "(oid, snd e) \<in> set (object_entries ?ops)"
      by (metis prod.collapse)
    then have "DAList.lookup ?ops oid = Some (snd e)"
      by (simp add: lookup_entry)
    with stored have "snd e = opn" by simp
    with e(2) missing show False by (simp add: passes_def)
  qed
  from load stored missing excluded [of True] excluded [of False]
  show "getIndexOperation rt a w oid = Inr (Some (opn\<lparr>op_processed := Some False\<rparr>), a1, w1)
   \<and> (\<exists>res. listIndexOperations rt a w (options\<lparr>opt_processed := Some True\<rparr>) = Inr (res, a1, w1)
          \<and> oid \<notin> set (map fst res))
   \<and> (\<exists>res. listIndexOperations rt a w (options\<lparr>opt_processed := Some False\<rparr>) = Inr (res, a1, w1)
          \<and> oid \<notin> set (map fst res))"
    by (simp add: getIndexOperation_via_load read_property_own listIndexOperations_via_load
        bool_coalesce_def)
qed

lemma example_entries:
  "object_entries example_operations =
     [(''old'', \<lparr>op_type = JStr ''add'', op_timestamp = Some 20, op_data = JNull, op_processed = None\<rparr>),
      (''op1'', \<lparr>op_type = JStr ''add'', op_timestamp = Some 30, op_data = JNull, op_processed = Some True\<rparr>),
      (''op2'', \<lparr>op_type = JStr ''add'', op_timestamp = None, op_data = JNull, op_processed = Some True\<rparr>),
      (''op3'', \<lparr>op_type = JStr ''delete'', op_timestamp = Some 10, op_data = JNull, op_processed = Some False\<rparr>)]"
  by (simp add: object_entries_def example_operations_def DAList.update.rep_eq DAList.empty.rep_eq)

lemma example_processed_true:
  "listIndexOperations_core example_operations
      \<lparr>opt_prefix = None, opt_limit = None, opt_cursor = None, opt_processed = Some True\<rparr>
   = [(''op2'', \<lparr>op_type = JStr ''add'', op_timestamp = None, op_data = JNull, op_processed = Some True\<rparr>),
      (''op1'', \<lparr>op_type = JStr ''add'', op_timestamp = Some 30, op_data = JNull, op_processed = Some True\<rparr>)]"
  by (simp add: listIndexOperations_core_def example_entries sort_timestamp_def int_or_def
      passes_def entry_out_def bool_coalesce_def nat_or_def slice_def Let_def)

theorem C6_listIndexOperations_filter_sort_limit_witness:
  "(\<exists>res full.
      listIndexOperations node_runtime (loaded_adapter (empty_document\<lparr>operations := example_operations\<rparr>))
        no_file_world
        \<lparr>opt_prefix = None, opt_limit = None, opt_cursor = None, opt_processed = Some True\<rparr>
        = Inr (res, loaded_adapter (empty_document\<lparr>operations := example_operations\<rparr>), no_file_world)
      \<and> res = take 1000 full
      \<and> sorted (map sort_timestamp full)
      \<and> distinct (map fst full)
      \<and> set full = entry_out ` {e \<in> set (object_entries example_operations).
                                   op_processed (snd e) = Some True}
      \<and> list_all (\<lambda>e. op_processed (snd e) = Some True) res)
   \<and> listIndexOperations node_runtime (loaded_adapter (empty_document\<lparr>operations := example_operations\<rparr>))
        no_file_world
        \<lparr>opt_prefix = None, opt_limit = None, opt_cursor = None, opt_processed = Some True\<rparr>
      = Inr ([(''op2'', \<lparr>op_type = JStr ''add'', op_timestamp = None, op_data = JNull,
                          op_processed = Some True\<rparr>),
              (''op1'', \<lparr>op_type = JStr ''add'', op_timestamp = Some 30, op_data = JNull,
                          op_processed = Some True\<rparr>)],
             loaded_adapter (empty_document\<lparr>operations := example_operations\<rparr>), no_file_world)
   \<and> (\<exists>res full.
      listIndexOperations node_runtime (loaded_adapter (empty_document\<lparr>operations := example_operations\<rparr>))
        no_file_world
        \<lparr>opt_prefix = None, opt_limit = None, opt_cursor = None, opt_processed = None\<rparr>
        = Inr (res, loaded_adapter (empty_document\<lparr>operations := example_operations\<rparr>), no_file_world)
      \<and> res = take 1000 full
      \<and> sorted (map sort_timestamp full)
      \<and> set full = entry_out ` set (object_entries example_operations))"
proof -
  let ?a = "loaded_adapter (empty_document\<lparr>operations := example_operations\<rparr>)"
  let ?t = "\<lparr>opt_prefix = None, opt_limit = None, opt_cursor = None, opt_processed = Some True\<rparr>"
  let ?n = "\<lparr>opt_prefix = None, opt_limit = None, opt_cursor = None, opt_processed = None\<rparr>"
  have ops: "operations (data ?a) = example_operations" by (simp add: loaded_adapter_def)
  have A: "\<exists>res full.
      listIndexOperations node_runtime ?a no_file_world ?t = Inr (res, ?a, no_file_world)
      \<and> res = take 1000 full
      \<and> sorted (map sort_timestamp full)
      \<and> distinct (map fst full)
      \<and> set full = entry_out ` {e \<in> set (object_entries example_operations).
                                   op_processed (snd e) = Some True}
      \<and> list_all (\<lambda>e. op_processed (snd e) = Some True) res"
    using C6_listIndexOperations_filter_sort_limit [of node_runtime ?a no_file_world ?a
        no_file_world ?t]
    by (simp add: loaded_adapter_load ops nat_or_def)
  have B: "\<exists>res full.
      listIndexOperations node_runtime ?a no_file_world ?n = Inr (res, ?a, no_file_world)
      \<and> res = take 1000 full
      \<and> sorted (map sort_timestamp full)
      \<and> set full = entry_out ` set (object_entries example_operations)"
    using C6_listIndexOperations_filter_sort_limit [of node_runtime ?a no_file_world ?a
        no_file_world ?n]
    by (simp add: loaded_adapter_load ops nat_or_def) blast
  have C: "listIndexOperations node_runtime ?a no_file_world ?t
      = Inr ([(''op2'', \<lparr>op_type = JStr ''add'', op_timestamp = None, op_data = JNull,
                          op_processed = Some True\<rparr>),
              (''op1'', \<lparr>op_type = JStr ''add'', op_timestamp = Some 30, op_data = JNull,
                          op_processed = Some True\<rparr>)], ?a, no_file_world)"
    by (simp add: listIndexOperations_via_load [OF loaded_adapter_load] ops example_processed_true)
  from A B C show ?thesis by blast
qed

lemma example_old:
  "DAList.lookup example_operations ''old''
     = Some \<lparr>op_type = JStr ''add'', op_timestamp = Some 20, op_data = JNull, op_processed = None\<rparr>"
  by (simp add: example_operations_def)

theorem C9_missing_processed_flag_witness:
  "getIndexOperation node_runtime (loaded_adapter (empty_document\<lparr>operations := example_operations\<rparr>))
        no_file_world ''old''
     = Inr (Some \<lparr>op_type = JStr ''add'', op_timestamp = Some 20, op_data = JNull,
                   op_processed = Some False\<rparr>,
            loaded_adapter (empty_document\<lparr>operations := example_operations\<rparr>), no_file_world)
   \<and> (\<exists>res.
        listIndexOperations node_runtime (loaded_adapter (empty_document\<lparr>operations := example_operations\<rparr>))
          no_file_world
          \<lparr>opt_prefix = None, opt_limit = None, opt_cursor = None, opt_processed = Some True\<rparr>
        = Inr (res, loaded_adapter (empty_document\<lparr>operations := example_operations\<rparr>), no_file_world)
        \<and> ''old'' \<notin> set (map fst res))
   \<and> (\<exists>res.
        listIndexOperations node_runtime (loaded_adapter (empty_document\<lparr>operations := example_operations\<rparr>))
          no_file_world
          \<lparr>opt_prefix = None, opt_limit = None, opt_cursor = None, opt_processed = Some False\<rparr>
        = Inr (res, loaded_adapter (empty_document\<lparr>operations := example_operations\<rparr>), no_file_world)
        \<and> ''old'' \<notin> set (map fst res))"
proof -
  let ?a = "loaded_adapter (empty_document\<lparr>operations := example_operations\<rparr>)"
  have ops: "operations (data ?a) = example_operations" by (simp add: loaded_adapter_def)
  from C9_missing_processed_flag [of node_runtime ?a no_file_world ?a no_file_world "''old''"
      "\<lparr>op_type = JStr ''add'', op_timestamp = Some 20, op_data = JNull, op_processed = None\<rparr>"
      no_options]
  show ?thesis
    by (simp add: loaded_adapter_load ops example_old no_options_def)
qed


section \<open>Loading the backing file\<close>

lemma ensureLoaded_fresh:
  assumes "node rt" and "mkdir_error w = None"
  shows "ensureLoaded rt (LocalFileDatabase p) w =
     (case read_and_parse rt (LocalFileDatabase p) w of
        Inl err \<Rightarrow>
          Inr ((LocalFileDatabase p)\<lparr>dataLoaded := True, fsPromise := True, pathPromise := True\<rparr>,
               if err_code err \<noteq> Some ''ENOENT'' then w\<lparr>console := console w @ [err]\<rparr> else w)
      | Inr NotAnObject \<Rightarrow> Inl TypeError
      | Inr (Parsed f s ops) \<Rightarrow>
          Inr ((LocalFileDatabase p)\<lparr>data := \<lparr>files = or_empty f, settings = or_empty s,
                                               operations = or_empty ops\<rparr>,
                 dataLoaded := True, fsPromise := True, pathPromise := True\<rparr>, w))"
  using assms
  by (simp add: ensureLoaded_def getFs_def getPath_def mkdir_def read_and_parse_def
      LocalFileDatabase_def Let_def split: sum.splits parsed.splits)

text \<open>
  The load failures that the \<^verbatim>\<open>catch\<close> clause sees. On a Node.js runtime whose
  directory can be made, a backing file that cannot be read (for a reason other than \<open>ENOENT\<close>)
  or whose text \<^verbatim>\<open>JSON.parse\<close> rejects leaves the new adapter loaded with its empty
  document: the three namespaces are empty, the error is appended to the console, and
  the first operation (here \<^verbatim>\<open>getFile\<close>) returns instead of throwing.
\<close>

lemma load_failure_degrades:
  assumes rt: "node rt" and mk: "mkdir_error w = None"
    and fail: "(disk w p = Unreadable code \<and> code \<noteq> ''ENOENT'' \<and> err = FsError code)
          \<or> (disk w p = Text s \<and> json_parse_document rt s = None \<and> err = SyntaxError)"
  shows "ensureLoaded rt (LocalFileDatabase p) w
     = Inr ((LocalFileDatabase p)\<lparr>dataLoaded := True, fsPromise := True, pathPromise := True\<rparr>,
            w\<lparr>console := console w @ [err]\<rparr>)"
    and "data ((LocalFileDatabase p)\<lparr>dataLoaded := True, fsPromise := True, pathPromise := True\<rparr>)
       = empty_document"
    and "object_keys (files empty_document) = []"
    and "object_keys (settings empty_document) = []"
    and "object_keys (operations empty_document) = []"
    and "\<exists>r. getFile rt (LocalFileDatabase p) w k
       = Inr (r, (LocalFileDatabase p)\<lparr>dataLoaded := True, fsPromise := True, pathPromise := True\<rparr>,
              w\<lparr>console := console w @ [err]\<rparr>)"
    and "k \<notin> set object_prototype \<Longrightarrow> getFile rt (LocalFileDatabase p) w k
       = Inr (None, (LocalFileDatabase p)\<lparr>dataLoaded := True, fsPromise := True, pathPromise := True\<rparr>,
              w\<lparr>console := console w @ [err]\<rparr>)"
proof -
  let ?a = "(LocalFileDatabase p)\<lparr>dataLoaded := True, fsPromise := True, pathPromise := True\<rparr>"
  from fail have rp: "read_and_parse rt (LocalFileDatabase p) w = Inl err"
    and code: "err_code err \<noteq> Some ''ENOENT''"
    by (auto simp: read_and_parse_def readFile_def LocalFileDatabase_def)
  show load: "ensureLoaded rt (LocalFileDatabase p) w = Inr (?a, w\<lparr>console := console w @ [err]\<rparr>)"
    using code by (simp add: ensureLoaded_fresh [OF rt mk] rp)
  show d: "data ?a = empty_document" by (simp add: LocalFileDatabase_def)
  show "object_keys (files empty_document) = []"
    "object_keys (settings empty_document) = []"
    "object_keys (operations empty_document) = []"
    by (simp_all add: empty_document_def object_keys_empty)
  show "\<exists>r. getFile rt (LocalFileDatabase p) w k = Inr (r, ?a, w\<lparr>console := console w @ [err]\<rparr>)"
    by (simp add: getFile_via_load [OF load])
  show "getFile rt (LocalFileDatabase p) w k = Inr (None, ?a, w\<lparr>console := console w @ [err]\<rparr>)"
    if "k \<notin> set object_prototype"
    using that by (simp add: getFile_via_load [OF load] d empty_document_def read_property_empty)
qed

text \<open>A backing file with broken JSON syntax, and one that cannot be opened.\<close>

lemma corrupt_file_degrades:
  "ensureLoaded node_runtime (LocalFileDatabase ''./data/local-db.json'') corrupt_world
     = Inr ((LocalFileDatabase ''./data/local-db.json'')
              \<lparr>dataLoaded := True, fsPromise := True, pathPromise := True\<rparr>,
            corrupt_world\<lparr>console := [SyntaxError]\<rparr>)"
  "getFile node_runtime (LocalFileDatabase ''./data/local-db.json'') corrupt_world ''doc1''
     = Inr (None, (LocalFileDatabase ''./data/local-db.json'')
              \<lparr>dataLoaded := True, fsPromise := True, pathPromise := True\<rparr>,
            corrupt_world\<lparr>console := [SyntaxError]\<rparr>)"
  "ensureLoaded node_runtime (LocalFileDatabase ''./data/local-db.json'') unreadable_world
     = Inr ((LocalFileDatabase ''./data/local-db.json'')
              \<lparr>dataLoaded := True, fsPromise := True, pathPromise := True\<rparr>,
            unreadable_world\<lparr>console := [FsError ''EACCES'']\<rparr>)"
proof -
  have n: "node node_runtime" by (simp add: node_runtime_def)
  have c: "mkdir_error corrupt_world = None" "console corrupt_world = []"
    "disk corrupt_world ''./data/local-db.json'' = Text ''{ files: ''
      \<and> json_parse_document node_runtime ''{ files: '' = None \<and> SyntaxError = SyntaxError"
    by (simp_all add: node_runtime_def corrupt_world_def no_file_world_def)
  have u: "mkdir_error unreadable_world = None" "console unreadable_world = []"
    "disk unreadable_world ''./data/local-db.json'' = Unreadable ''EACCES''
      \<and> ''EACCES'' \<noteq> ''ENOENT'' \<and> FsError ''EACCES'' = FsError ''EACCES''"
    by (simp_all add: unreadable_world_def no_file_world_def)
  have k: "''doc1'' \<notin> set object_prototype" by (simp add: object_prototype_def)
  from load_failure_degrades(1) [OF n c(1) disjI2, OF c(3)] c(2)
  show "ensureLoaded node_runtime (LocalFileDatabase ''./data/local-db.json'') corrupt_world
     = Inr ((LocalFileDatabase ''./data/local-db.json'')
              \<lparr>dataLoaded := True, fsPromise := True, pathPromise := True\<rparr>,
            corrupt_world\<lparr>console := [SyntaxError]\<rparr>)"
    by simp
  from load_failure_degrades(7) [OF n c(1) disjI2, OF c(3) k] c(2)
  show "getFile node_runtime (LocalFileDatabase ''./data/local-db.json'') corrupt_world ''doc1''
     = Inr (None, (LocalFileDatabase ''./data/local-db.json'')
              \<lparr>dataLoaded := True, fsPromise := True, pathPromise := True\<rparr>,
            corrupt_world\<lparr>console := [SyntaxError]\<rparr>)"
    by simp
  from load_failure_degrades(1) [OF n u(1) disjI1, OF u(3)] u(2)
  show "ensureLoaded node_runtime (LocalFileDatabase ''./data/local-db.json'') unreadable_world
     = Inr ((LocalFileDatabase ''./data/local-db.json'')
              \<lparr>dataLoaded := True, fsPromise := True, pathPromise := True\<rparr>,
            unreadable_world\<lparr>console := [FsError ''EACCES'']\<rparr>)"
    by simp
qed

lemma dbPath_new: "dbPath (LocalFileDatabase p) = p"
  by (simp add: LocalFileDatabase_def)

lemma ensureLoaded_missing_file:
  "node rt \<Longrightarrow> mkdir_error w = None \<Longrightarrow> disk w p = Unreadable ''ENOENT'' \<Longrightarrow>
   ensureLoaded rt (LocalFileDatabase p) w
     = Inr ((LocalFileDatabase p)\<lparr>dataLoaded := True, fsPromise := True, pathPromise := True\<rparr>, w)"
  by (simp add: ensureLoaded_fresh read_and_parse_def readFile_def dbPath_new)

text \<open>
  A backing file whose text parses, but not to an object (\<^verbatim>\<open>null\<close>, a number, a
  string, a boolean), is not caught: \<^verbatim>\<open>JSON.parse\<close> returns inside the \<^verbatim>\<open>try\<close>
  block, the defaults are assigned after it, and the first of them throws.
\<close>

lemma ensureLoaded_not_an_object:
  "node rt \<Longrightarrow> mkdir_error w = None \<Longrightarrow> disk w p = Text s \<Longrightarrow>
   json_parse_document rt s = Some NotAnObject \<Longrightarrow>
   ensureLoaded rt (LocalFileDatabase p) w = Inl TypeError"
  by (simp add: ensureLoaded_fresh read_and_parse_def readFile_def dbPath_new)

text \<open>
  Claim C2, at a backing file that holds the text \<^verbatim>\<open>null\<close>. The file exists and is
  read, and its text is JSON, but not a document. \<^verbatim>\<open>ensureLoaded\<close> does not fall
  back to the empty document: it throws a \<^verbatim>\<open>TypeError\<close>, and so does the first
  operation of the caller, be it \<^verbatim>\<open>getFile\<close>, \<^verbatim>\<open>listFiles\<close> or \<^verbatim>\<open>put\<close>.
\<close>

theorem C2_null_backing_file_throws:
  "disk null_file_world ''./data/local-db.json'' = Text ''null''
   \<and> json_parse_document example_json_runtime ''null'' = Some NotAnObject
   \<and> ensureLoaded example_json_runtime (LocalFileDatabase ''./data/local-db.json'') null_file_world
       = Inl TypeError
   \<and> getFile example_json_runtime (LocalFileDatabase ''./data/local-db.json'') null_file_world
         ''doc1'' = Inl TypeError
   \<and> listFiles example_json_runtime (LocalFileDatabase ''./data/local-db.json'') null_file_world
         no_options = Inl TypeError
   \<and> put example_json_runtime (LocalFileDatabase ''./data/local-db.json'') null_file_world
         ''doc1'' (JStr ''hello'') JUndefined = Inl TypeError"
proof -
  have w: "disk null_file_world ''./data/local-db.json'' = Text ''null''"
    "mkdir_error null_file_world = None"
    by (simp_all add: null_file_world_def no_file_world_def)
  have rt: "node example_json_runtime"
    "json_parse_document example_json_runtime ''null'' = Some NotAnObject"
    by (simp_all add: example_json_runtime_def)
  have load: "ensureLoaded example_json_runtime (LocalFileDatabase ''./data/local-db.json'')
      null_file_world = Inl TypeError"
    using ensureLoaded_not_an_object [OF rt(1) w(2) w(1) rt(2)] .
  have "\<not> startsWith ''doc1'' settings_prefix" "\<not> startsWith ''doc1'' operation_prefix"
    by (simp_all add: startsWith_def settings_prefix_def operation_prefix_def)
  then have "put example_json_runtime (LocalFileDatabase ''./data/local-db.json'') null_file_world
         ''doc1'' (JStr ''hello'') JUndefined = Inl TypeError"
    by (simp add: put_def putFile_def load Let_def)
  with w(1) rt(2) load show ?thesis
    by (simp add: getFile_def listFiles_def)
qed

lemma ensureLoaded_without_runtime:
  "\<not> node rt \<Longrightarrow> ensureLoaded rt (LocalFileDatabase p) w = Inl NoNodeRuntime"
  by (simp add: ensureLoaded_def getFs_def LocalFileDatabase_def)


section \<open>Operations through the generic interface\<close>

lemma replace_first_prefix: "replace_first (pat @ rest) pat rep = rep @ rest"
proof (cases "pat @ rest")
  case Nil
  then show ?thesis by simp
next
  case (Cons c cs)
  have "startsWith (c # cs) pat"
    unfolding Cons [symmetric] by (simp add: startsWith_def)
  then have "replace_first (c # cs) pat rep = rep @ drop (length pat) (c # cs)"
    by simp
  then show ?thesis
    unfolding Cons [symmetric] by simp
qed

lemma operation_rebuild:
  "\<lparr>op_type = op_type opn, op_timestamp = op_timestamp opn, op_data = op_data opn,
    op_processed = x\<rparr> = opn\<lparr>op_processed := x\<rparr>"
  by (cases opn) simp

lemma startsWith_append: "startsWith (p @ rest) p"
  by (simp add: startsWith_def)

lemma operation_key_not_setting: "\<not> startsWith (operation_prefix @ oid) settings_prefix"
  by (simp add: startsWith_def operation_prefix_def settings_prefix_def)

lemma putIndexOperation_result:
  assumes "putIndexOperation rt a w k (Some opn) = Inr (u, a', w')"
  shows "\<exists>a1 w1. ensureLoaded rt a w = Inr (a1, w1) \<and> dataLoaded a'
           \<and> data a' = (data a1)\<lparr>operations := DAList.update k
                 (opn\<lparr>op_processed := Some (bool_coalesce (op_processed opn) False)\<rparr>)
                 (operations (data a1))\<rparr>"
  using assms
  by (auto simp: putIndexOperation_def Let_def operation_rebuild split: sum.splits
      dest!: persist_fields ensureLoaded_dataLoaded)

lemma put_operation:
  "put rt a w (operation_prefix @ oid) value options =
     (case json_parse_operation rt value of
        None \<Rightarrow> Inl SyntaxError
      | Some operation \<Rightarrow> putIndexOperation rt a w oid operation)"
  by (simp add: put_def operation_key_not_setting startsWith_append replace_first_prefix)

lemma get_operation:
  "ensureLoaded rt a w = Inr (a1, w1) \<Longrightarrow>
   get rt a w (operation_prefix @ oid) =
     (case read_property (operations (data a1)) oid of
        Missing \<Rightarrow> Inr (JNull, a1, w1)
      | Inherited name \<Rightarrow>
          Inr (JStr (json_stringify_operation rt
                 \<lparr>op_type = JUndefined, op_timestamp = None, op_data = JUndefined,
                  op_processed = Some False\<rparr>), a1, w1)
      | Own r \<Rightarrow>
          Inr (JStr (json_stringify_operation rt
                 (r\<lparr>op_processed := Some (bool_coalesce (op_processed r) False)\<rparr>)), a1, w1))"
  by (simp add: get_def operation_key_not_setting startsWith_append replace_first_prefix
      getIndexOperation_via_load split: property.splits)

text \<open>
  Operation keys, and where an absent id reads as \<open>null\<close>. For a key
  \<open>operation_prefix @ oid\<close>,
  \<^verbatim>\<open>put\<close> parses the value and hands the operation to \<^verbatim>\<open>putIndexOperation\<close>
  under \<open>oid\<close>, which stores it with the flag defaulted to \<open>false\<close>; \<^verbatim>\<open>get\<close>
  returns the JSON text of a stored record, and \<open>null\<close> for an absent \<open>oid\<close>
  provided it is not the name of a member of \<^verbatim>\<open>Object.prototype\<close>. Where
  \<^verbatim>\<open>JSON.parse\<close> inverts \<^verbatim>\<open>JSON.stringify\<close> on the operation and on the stored
  record, \<^verbatim>\<open>put\<close> of the text of an operation followed by \<^verbatim>\<open>get\<close> returns a text
  that parses to the stored record.
\<close>

lemma put_operation_parsed:
  "json_parse_operation rt v = Some (Some opn) \<Longrightarrow>
   put rt a w (operation_prefix @ oid) v options = putIndexOperation rt a w oid (Some opn)"
  by (simp add: put_operation)

lemma put_operation_stores:
  assumes "json_parse_operation rt v = Some (Some opn)"
    and "put rt a w (operation_prefix @ oid) v options = Inr (u, a', w')"
  shows "read_property (operations (data a')) oid
           = Own (opn\<lparr>op_processed := Some (bool_coalesce (op_processed opn) False)\<rparr>)"
    and "dataLoaded a'"
  using assms by (auto simp: put_operation read_property_own dest!: putIndexOperation_result)

lemma get_operation_stored:
  assumes "ensureLoaded rt b wb = Inr (b1, w1)" and "DAList.lookup (operations (data b1)) oid = Some r"
  shows "get rt b wb (operation_prefix @ oid)
           = Inr (JStr (json_stringify_operation rt
                    (r\<lparr>op_processed := Some (bool_coalesce (op_processed r) False)\<rparr>)), b1, w1)"
  using assms by (simp add: get_operation read_property_own)

lemma get_operation_absent:
  assumes "ensureLoaded rt b wb = Inr (b1, w1)" and "DAList.lookup (operations (data b1)) oid = None"
    and "oid \<notin> set object_prototype"
  shows "get rt b wb (operation_prefix @ oid) = Inr (JNull, b1, w1)"
  using assms by (simp add: get_operation read_property_missing)

text \<open>
  An absent id that names a member of \<^verbatim>\<open>Object.prototype\<close> reads as the text of a
  record.
\<close>

lemma get_operation_absent_inherited:
  assumes "ensureLoaded rt b wb = Inr (b1, w1)" and "DAList.lookup (operations (data b1)) oid = None"
    and "oid \<in> set object_prototype"
  shows "get rt b wb (operation_prefix @ oid)
           = Inr (JStr (json_stringify_operation rt
                    \<lparr>op_type = JUndefined, op_timestamp = None, op_data = JUndefined,
                     op_processed = Some False\<rparr>), b1, w1)"
  using assms by (simp add: get_operation read_property_inherited)

lemma operation_put_get:
  assumes p: "put rt c wc (operation_prefix @ oid) (JStr (json_stringify_operation rt opn)) options
          = Inr (u, c', wc')"
    and r1: "json_parse_operation rt (JStr (json_stringify_operation rt opn)) = Some (Some opn)"
    and r2: "json_parse_operation rt (JStr (json_stringify_operation rt
              (opn\<lparr>op_processed := Some (bool_coalesce (op_processed opn) False)\<rparr>)))
            = Some (Some (opn\<lparr>op_processed := Some (bool_coalesce (op_processed opn) False)\<rparr>))"
  shows "\<exists>s. get rt c' w2 (operation_prefix @ oid) = Inr (JStr s, c', w2)
             \<and> json_parse_operation rt (JStr s)
                 = Some (Some (opn\<lparr>op_processed := Some (bool_coalesce (op_processed opn) False)\<rparr>))"
proof -
  note st = put_operation_stores [OF r1 p]
  from st(2) have "ensureLoaded rt c' w2 = Inr (c', w2)" by (rule ensureLoaded_loaded)
  from get_operation [OF this, of oid] st(1) r2 show ?thesis
    by (simp add: bool_coalesce_def)
qed

text \<open>
  A round trip on the example runtime: the operation is written without the flag and
  read back with the flag \<open>false\<close>.
\<close>

lemma operation_round_trip_example:
  "\<exists>u a' w'.
      put example_json_runtime (LocalFileDatabase ''./data/local-db.json'') no_file_world
        (operation_prefix @ ''op42'') (JStr ''{type:add,timestamp:5,data:null}'') JUndefined
        = Inr (u, a', w')
      \<and> get example_json_runtime a' w' (operation_prefix @ ''op42'')
          = Inr (JStr ''{type:add,timestamp:5,data:null,processed:false}'', a', w')
      \<and> json_parse_operation example_json_runtime
            (JStr ''{type:add,timestamp:5,data:null,processed:false}'')
          = Some (Some \<lparr>op_type = JStr ''add'', op_timestamp = Some 5, op_data = JNull,
                         op_processed = Some False\<rparr>)"
proof -
  let ?rt = example_json_runtime
  let ?new = "LocalFileDatabase ''./data/local-db.json''"
  let ?op = "\<lparr>op_type = JStr ''add'', op_timestamp = Some 5, op_data = JNull, op_processed = None\<rparr>"
  let ?stored = "\<lparr>op_type = JStr ''add'', op_timestamp = Some 5, op_data = JNull,
                   op_processed = Some False\<rparr>"
  let ?text = "''{type:add,timestamp:5,data:null}''"
  let ?text' = "''{type:add,timestamp:5,data:null,processed:false}''"
  have str: "json_stringify_operation ?rt ?stored = ?text'"
    by (simp add: example_json_runtime_def)
  have prs: "json_parse_operation ?rt (JStr ?text) = Some (Some ?op)"
    "json_parse_operation ?rt (JStr ?text') = Some (Some ?stored)"
    by (simp_all add: example_json_runtime_def)
  obtain u a' w' where p:
    "put ?rt ?new no_file_world (operation_prefix @ ''op42'') (JStr ?text) JUndefined = Inr (u, a', w')"
    by (simp add: put_operation prs putIndexOperation_def ensureLoaded_def persist_def getFs_def
        getPath_def mkdir_def readFile_def writeFile_def read_and_parse_def LocalFileDatabase_def
        example_json_runtime_def no_file_world_def Let_def)
  note st = put_operation_stores [OF prs(1) p]
  from st(2) have "ensureLoaded ?rt a' w' = Inr (a', w')" by (rule ensureLoaded_loaded)
  from get_operation [OF this, of "''op42''"] st(1) str
  have "get ?rt a' w' (operation_prefix @ ''op42'') = Inr (JStr ?text', a', w')"
    by (simp add: bool_coalesce_def)
  with p prs(2) show ?thesis by blast
qed

text \<open>
  Claim C7, at a new adapter on a path with no backing file. The operations namespace
  is empty, so the id \<open>constructor\<close> is absent from it, and yet the generic
  \<^verbatim>\<open>get\<close> on the prefixed key does not return \<open>null\<close>: \<^verbatim>\<open>getIndexOperation\<close>
  takes the function that the namespace inherits under that name for a stored record,
  and \<^verbatim>\<open>get\<close> returns the JSON text of a record that holds the flag \<open>false\<close> and
  nothing else.
\<close>

theorem C7_absent_operation_reads_as_record:
  "get example_json_runtime (LocalFileDatabase ''./data/local-db.json'') no_file_world
       (operation_prefix @ ''constructor'')
     = Inr (JStr ''{processed:false}'', loaded_adapter empty_document, no_file_world)
   \<and> getIndexOperation example_json_runtime (LocalFileDatabase ''./data/local-db.json'')
       no_file_world ''constructor''
     = Inr (Some \<lparr>op_type = JUndefined, op_timestamp = None, op_data = JUndefined,
                   op_processed = Some False\<rparr>, loaded_adapter empty_document, no_file_world)
   \<and> object_keys (operations (data (loaded_adapter empty_document))) = []"
proof -
  let ?rt = example_json_runtime
  have "(LocalFileDatabase ''./data/local-db.json'')
          \<lparr>dataLoaded := True, fsPromise := True, pathPromise := True\<rparr>
        = loaded_adapter empty_document"
    by (simp add: LocalFileDatabase_def loaded_adapter_def)
  with ensureLoaded_missing_file [of ?rt no_file_world "''./data/local-db.json''"]
  have load: "ensureLoaded ?rt (LocalFileDatabase ''./data/local-db.json'') no_file_world
      = Inr (loaded_adapter empty_document, no_file_world)"
    by (simp add: example_json_runtime_def no_file_world_def)
  have ops: "operations (data (loaded_adapter empty_document)) = DAList.empty"
    by (simp add: loaded_adapter_def empty_document_def)
  have str: "json_stringify_operation ?rt
      \<lparr>op_type = JUndefined, op_timestamp = None, op_data = JUndefined, op_processed = Some False\<rparr>
      = ''{processed:false}''"
    by (simp add: example_json_runtime_def)
  have i: "read_property (DAList.empty :: (string, operation) alist) ''constructor''
      = Inherited ''constructor''"
    by (simp add: read_property_empty object_prototype_def)
  from get_operation [OF load, of "''constructor''"] getIndexOperation_via_load [OF load, of "''constructor''"]
    empty_document_keys(3)
  show ?thesis
    by (simp add: ops i str)
qed


section \<open>Isolation of the namespaces\<close>

lemma set_object_keys_update:
  "set (object_keys (DAList.update k v obj)) = insert k (set (object_keys obj))"
  by (auto simp: object_keys_update)

lemma set_slice: "set (slice xs i j) \<subseteq> set xs"
  unfolding slice_def by (meson set_take_subset set_drop_subset subset_trans)

lemma matching_keys_subset: "set (matching_keys obj p) \<subseteq> set (object_keys obj)"
  by (auto simp: set_matching_keys)

lemma listFiles_core_keys:
  assumes "listFiles_core fs options = Inr page"
  shows "set (map fst (page_keys page)) \<subseteq> set (object_keys fs)"
proof -
  let ?ks = "matching_keys fs (str_or (opt_prefix options) [])"
  let ?i = "resume_index ?ks (opt_cursor options)"
  let ?lim = "nat_or (opt_limit options) 1000"
  let ?sliced = "slice ?ks ?i (?i + ?lim + 1)"
  have ks: "set ?ks \<subseteq> set (object_keys fs)"
    by (rule matching_keys_subset)
  have s1: "set ?sliced \<subseteq> set (object_keys fs)"
    using set_slice [of ?ks ?i "?i + ?lim + 1"] ks by (rule subset_trans)
  have s2: "set (slice ?sliced 0 ?lim) \<subseteq> set (object_keys fs)"
    using set_slice [of ?sliced 0 ?lim] s1 by (rule subset_trans)
  from assms have "map fst (page_keys page) = slice ?sliced 0 ?lim
      \<or> map fst (page_keys page) = ?sliced"
    by (subst (asm) listFiles_core_unfold) (auto simp: comp_def split: if_splits)
  with s1 s2 show ?thesis by metis
qed

lemma listSettings_core_keys:
  "set (map fst (listSettings_core ss options)) \<subseteq> set (object_keys ss)"
proof -
  have "map fst (listSettings_core ss options)
      = slice (matching_keys ss (str_or (opt_prefix options) [])) 0 (nat_or (opt_limit options) 1000)"
    by (simp add: listSettings_core_def Let_def comp_def)
  then show ?thesis
    using set_slice matching_keys_subset by (metis subset_trans)
qed

lemma listSettings_loaded:
  "dataLoaded a \<Longrightarrow>
   listSettings rt a w options = Inr (listSettings_core (settings (data a)) options, a, w)"
  by (simp add: listSettings_def ensureLoaded_loaded)

lemma routed_empty: "routed empty_document"
  by (simp add: routed_def empty_document_def object_keys_empty)

lemma put_result:
  assumes load: "ensureLoaded rt a w = Inr (a1, w1)"
    and put: "put rt a w key v options = Inr (u, a', w')"
  shows "dataLoaded a'
    \<and> (startsWith key settings_prefix \<longrightarrow>
         data a' = (data a1)\<lparr>settings := DAList.update key v (settings (data a1))\<rparr>)
    \<and> (\<not> startsWith key settings_prefix \<and> startsWith key operation_prefix \<longrightarrow>
         files (data a') = files (data a1) \<and> settings (data a') = settings (data a1))
    \<and> (\<not> startsWith key settings_prefix \<and> \<not> startsWith key operation_prefix \<longrightarrow>
         (\<exists>r. data a' = (data a1)\<lparr>files := DAList.update key r (files (data a1))\<rparr>))"
proof (cases "startsWith key settings_prefix")
  case True
  with put have "putSetting rt a w key v = Inr (u, a', w')" by (simp add: put_def)
  from putSetting_result [OF this] load True show ?thesis by auto
next
  case False
  show ?thesis
  proof (cases "startsWith key operation_prefix")
    case True
    with False put obtain opn where
      "putIndexOperation rt a w (replace_first key operation_prefix []) (Some opn) = Inr (u, a', w')"
      by (auto simp: put_def putIndexOperation_def split: option.splits sum.splits)
    from putIndexOperation_result [OF this] load True False show ?thesis by auto
  next
    case nop: False
    with False put have "putFile rt a w key v options = Inr (u, a', w')" by (simp add: put_def)
    from putFile_result [OF this] load False nop show ?thesis by auto
  qed
qed

lemma put_preserves_routed:
  assumes load: "ensureLoaded rt a w = Inr (a1, w1)"
    and put: "put rt a w key v options = Inr (u, a', w')"
    and inv: "routed (data a1)"
  shows "routed (data a')"
proof -
  note r = put_result [OF load put]
  show ?thesis
  proof (cases "startsWith key settings_prefix")
    case True
    with r have "data a' = (data a1)\<lparr>settings := DAList.update key v (settings (data a1))\<rparr>"
      by simp
    with inv True show ?thesis
      by (simp add: routed_def list_all_iff set_object_keys_update)
  next
    case False
    show ?thesis
    proof (cases "startsWith key operation_prefix")
      case True
      with False r have "files (data a') = files (data a1)" "settings (data a') = settings (data a1)"
        by simp_all
      with inv show ?thesis by (simp add: routed_def)
    next
      case nop: False
      with False r obtain rec where
        "data a' = (data a1)\<lparr>files := DAList.update key rec (files (data a1))\<rparr>"
        by auto
      with inv False nop show ?thesis
        by (simp add: routed_def list_all_iff set_object_keys_update)
    qed
  qed
qed

lemma set_object_keys_delete:
  "set (object_keys (DAList.delete k obj)) \<subseteq> set (object_keys obj)"
  by (auto simp: object_keys_def DAList.delete.rep_eq AList.delete_eq)

lemma delete_preserves_routed:
  assumes "ensureLoaded rt a w = Inr (a1, w1)" and "delete' rt a w key = Inr (u, a', w')"
    and "routed (data a1)"
  shows "routed (data a')"
proof -
  from assms(1,2) have "set (object_keys (files (data a'))) \<subseteq> set (object_keys (files (data a1)))
      \<and> set (object_keys (settings (data a'))) \<subseteq> set (object_keys (settings (data a1)))"
    by (auto simp: delete'_def deleteSetting_def deleteFile_def deleteIndexOperation_def Let_def
        split: if_splits sum.splits dest!: persist_fields
        dest: set_object_keys_delete [THEN subsetD])
  with assms(3) show ?thesis
    by (auto simp: routed_def list_all_iff)
qed


text \<open>
  The keys stay where the generic interface routes them along every run that starts
  on a path with no backing file.
\<close>

lemma ensureLoaded_keeps_data:
  assumes "ensureLoaded rt a w = Inr (a1, w1)"
    and "dataLoaded a \<or> disk w (dbPath a) = Unreadable ''ENOENT''"
  shows "data a1 = data a \<and> dataLoaded a1"
  using assms
  by (auto simp: ensureLoaded_def Let_def read_and_parse_def readFile_def getPath_fields
      dest!: getFs_fields split: if_splits sum.splits)

lemma put_loads: "put rt a w key v options = Inr (u, a', w') \<Longrightarrow> \<exists>a1 w1. ensureLoaded rt a w = Inr (a1, w1)"
  by (auto simp: put_def putSetting_def putFile_def putIndexOperation_def Let_def
      split: if_splits sum.splits option.splits)

lemma delete_loads: "delete' rt a w key = Inr (u, a', w') \<Longrightarrow> \<exists>a1 w1. ensureLoaded rt a w = Inr (a1, w1)"
  by (auto simp: delete'_def deleteSetting_def deleteFile_def deleteIndexOperation_def Let_def
      split: if_splits sum.splits)

lemma delete_loaded: "delete' rt a w key = Inr (u, a', w') \<Longrightarrow> dataLoaded a'"
  by (auto simp: delete'_def deleteSetting_def deleteFile_def deleteIndexOperation_def Let_def
      split: if_splits sum.splits dest!: persist_fields ensureLoaded_dataLoaded)

lemma get_reads:
  "get rt a w key = Inr (x, a', w') \<Longrightarrow> ensureLoaded rt a w = Inr (a', w')"
  by (auto simp: get_def getSetting_def getIndexOperation_def getFile_def Let_def
      split: if_splits sum.splits option.splits property.splits)

lemma getWithMetadata_reads:
  "getWithMetadata rt a w key = Inr (r, a', w') \<Longrightarrow> ensureLoaded rt a w = Inr (a', w')"
  by (auto simp: getWithMetadata_def getSetting_def getFileWithMetadata_def getFile_def
      split: if_splits sum.splits option.splits property.splits)

lemma list_reads:
  "list' rt a w opts = Inr (l, a', w') \<Longrightarrow> ensureLoaded rt a w = Inr (a', w')"
  by (auto simp: list'_def listSettings_def listIndexOperations_def listFiles_def Let_def
      split: if_splits sum.splits)

lemma generic_run_routed:
  "generic_run rt a w \<Longrightarrow>
   routed (data a) \<and> (dataLoaded a \<or> disk w (dbPath a) = Unreadable ''ENOENT'')"
proof (induction rule: generic_run.induct)
  case (start w p)
  then show ?case
    by (simp add: LocalFileDatabase_def routed_empty)
next
  case (after_put a w key v options u a' w')
  from put_loads [OF after_put.hyps(2)] obtain a1 w1 where
    load: "ensureLoaded rt a w = Inr (a1, w1)" by blast
  from ensureLoaded_keeps_data [OF load] after_put.IH have "routed (data a1)" by simp
  from put_preserves_routed [OF load after_put.hyps(2) this] put_result [OF load after_put.hyps(2)]
  show ?case by simp
next
  case (after_delete a w key u a' w')
  from delete_loads [OF after_delete.hyps(2)] obtain a1 w1 where
    load: "ensureLoaded rt a w = Inr (a1, w1)" by blast
  from ensureLoaded_keeps_data [OF load] after_delete.IH have "routed (data a1)" by simp
  from delete_preserves_routed [OF load after_delete.hyps(2) this]
    delete_loaded [OF after_delete.hyps(2)]
  show ?case by simp
next
  case (after_get a w key x a' w')
  from ensureLoaded_keeps_data [OF get_reads [OF after_get.hyps(2)]] after_get.IH
  show ?case by simp
next
  case (after_getWithMetadata a w key r a' w')
  from ensureLoaded_keeps_data [OF getWithMetadata_reads [OF after_getWithMetadata.hyps(2)]]
    after_getWithMetadata.IH
  show ?case by simp
next
  case (after_list a w opts l a' w')
  from ensureLoaded_keeps_data [OF list_reads [OF after_list.hyps(2)]] after_list.IH
  show ?case by simp
qed

text \<open>
  Claim C8. A generic \<^verbatim>\<open>put\<close> of a key with the settings prefix leaves the files
  namespace as it is, and a generic \<^verbatim>\<open>put\<close> of a key with neither reserved prefix
  leaves the settings namespace as it is. Along a run through the generic interface
  (or in any store whose keys are where the generic interface routes them), the
  settings key is then in no result of \<^verbatim>\<open>listFiles\<close> and the file key in no
  result of \<^verbatim>\<open>listSettings\<close>, and the keys stay routed.
\<close>

theorem C8_namespace_isolation:
  "ensureLoaded rt a w = Inr (a1, w1) \<and> put rt a w key v options = Inr (u, a', w') \<longrightarrow>
     (startsWith key settings_prefix \<longrightarrow> files (data a') = files (data a1))
   \<and> (\<not> startsWith key settings_prefix \<and> \<not> startsWith key operation_prefix \<longrightarrow>
        settings (data a') = settings (data a1))
   \<and> (generic_run rt a w \<or> routed (data a1) \<longrightarrow>
        routed (data a')
        \<and> (startsWith key settings_prefix \<longrightarrow>
             (\<forall>opts page a2 w3. listFiles rt a' w2 opts = Inr (page, a2, w3) \<longrightarrow>
                key \<notin> set (map fst (page_keys page))))
        \<and> (\<not> startsWith key settings_prefix \<and> \<not> startsWith key operation_prefix \<longrightarrow>
             (\<forall>opts ks a2 w3. listSettings rt a' w2 opts = Inr (ks, a2, w3) \<longrightarrow>
                key \<notin> set (map fst ks))))"
proof (intro impI, elim conjE)
  assume load: "ensureLoaded rt a w = Inr (a1, w1)"
    and put: "put rt a w key v options = Inr (u, a', w')"
  note r = put_result [OF load put]
  from r have ld: "dataLoaded a'" by simp
  have inv: "routed (data a1)" if "generic_run rt a w \<or> routed (data a1)"
    using that
  proof
    assume "generic_run rt a w"
    from generic_run_routed [OF this] ensureLoaded_keeps_data [OF load]
    show ?thesis by simp
  qed
  have keep: "routed (data a')" if "routed (data a1)"
    using load put that by (rule put_preserves_routed)
  have nofile: "key \<notin> set (map fst (page_keys page))"
    if rt: "routed (data a1)" and s: "startsWith key settings_prefix"
      and l: "listFiles rt a' w2 opts = Inr (page, a2, w3)" for opts page a2 w3
  proof -
    from l ld have "listFiles_core (files (data a')) opts = Inr page"
      by (auto simp: listFiles_loaded split: sum.splits)
    from listFiles_core_keys [OF this]
    have "set (map fst (page_keys page)) \<subseteq> set (object_keys (files (data a')))" .
    moreover from keep [OF rt] s have "key \<notin> set (object_keys (files (data a')))"
      by (auto simp: routed_def list_all_iff)
    ultimately show ?thesis by blast
  qed
  have nosetting: "key \<notin> set (map fst ks)"
    if rt: "routed (data a1)" and s: "\<not> startsWith key settings_prefix"
      and l: "listSettings rt a' w2 opts = Inr (ks, a2, w3)" for opts ks a2 w3
  proof -
    from l ld have "ks = listSettings_core (settings (data a')) opts"
      by (auto simp: listSettings_loaded)
    with listSettings_core_keys [of "settings (data a')" opts]
    have "set (map fst ks) \<subseteq> set (object_keys (settings (data a')))" by simp
    moreover from keep [OF rt] s have "key \<notin> set (object_keys (settings (data a')))"
      by (auto simp: routed_def list_all_iff)
    ultimately show ?thesis by blast
  qed
  have listed: "routed (data a')
        \<and> (startsWith key settings_prefix \<longrightarrow>
             (\<forall>opts page a2 w3. listFiles rt a' w2 opts = Inr (page, a2, w3) \<longrightarrow>
                key \<notin> set (map fst (page_keys page))))
        \<and> (\<not> startsWith key settings_prefix \<and> \<not> startsWith key operation_prefix \<longrightarrow>
             (\<forall>opts ks a2 w3. listSettings rt a' w2 opts = Inr (ks, a2, w3) \<longrightarrow>
                key \<notin> set (map fst ks)))"
    if "generic_run rt a w \<or> routed (data a1)"
    using keep [OF inv [OF that]] nofile [OF inv [OF that]] nosetting [OF inv [OF that]]
    by blast
  from r listed
  show "(startsWith key settings_prefix \<longrightarrow> files (data a') = files (data a1))
   \<and> (\<not> startsWith key settings_prefix \<and> \<not> startsWith key operation_prefix \<longrightarrow>
        settings (data a') = settings (data a1))
   \<and> (generic_run rt a w \<or> routed (data a1) \<longrightarrow>
        routed (data a')
        \<and> (startsWith key settings_prefix \<longrightarrow>
             (\<forall>opts page a2 w3. listFiles rt a' w2 opts = Inr (page, a2, w3) \<longrightarrow>
                key \<notin> set (map fst (page_keys page))))
        \<and> (\<not> startsWith key settings_prefix \<and> \<not> startsWith key operation_prefix \<longrightarrow>
             (\<forall>opts ks a2 w3. listSettings rt a' w2 opts = Inr (ks, a2, w3) \<longrightarrow>
                key \<notin> set (map fst ks))))"
    by auto
qed

theorem C8_namespace_isolation_witness:
  "generic_run node_runtime (LocalFileDatabase ''./data/local-db.json'') no_file_world
   \<and> (\<exists>u a' w'.
      put node_runtime (LocalFileDatabase ''./data/local-db.json'') no_file_world
        ''manage@sysConfig@theme'' (JStr ''dark'') JUndefined = Inr (u, a', w')
      \<and> files (data a') = DAList.empty
      \<and> routed (data a')
      \<and> (\<exists>page. listFiles node_runtime a' w' no_options = Inr (page, a', w')
            \<and> ''manage@sysConfig@theme'' \<notin> set (map fst (page_keys page))))
   \<and> (\<exists>u a' w'.
      put node_runtime (LocalFileDatabase ''./data/local-db.json'') no_file_world
        ''doc1'' (JStr ''hello'') JUndefined = Inr (u, a', w')
      \<and> settings (data a') = DAList.empty
      \<and> routed (data a')
      \<and> (\<exists>ks. listSettings node_runtime a' w' no_options = Inr (ks, a', w')
            \<and> ''doc1'' \<notin> set (map fst ks)))"
proof -
  let ?rt = node_runtime
  let ?new = "LocalFileDatabase ''./data/local-db.json''"
  let ?a1 = "?new\<lparr>dataLoaded := True, fsPromise := True, pathPromise := True\<rparr>"
  have load: "ensureLoaded ?rt ?new no_file_world = Inr (?a1, no_file_world)"
    by (rule ensureLoaded_missing_file) (simp_all add: node_runtime_def no_file_world_def)
  have d1: "data ?a1 = empty_document" by (simp add: LocalFileDatabase_def)
  have inv: "generic_run ?rt ?new no_file_world"
    by (rule generic_run.start) (simp add: no_file_world_def)
  have s: "startsWith ''manage@sysConfig@theme'' settings_prefix"
    and f: "\<not> startsWith ''doc1'' settings_prefix" "\<not> startsWith ''doc1'' operation_prefix"
    by (simp_all add: startsWith_def settings_prefix_def operation_prefix_def)
  obtain u a' w' where p:
    "put ?rt ?new no_file_world ''manage@sysConfig@theme'' (JStr ''dark'') JUndefined = Inr (u, a', w')"
    using s
    by (simp add: put_def putSetting_def ensureLoaded_def persist_def getFs_def getPath_def
        mkdir_def readFile_def writeFile_def read_and_parse_def LocalFileDatabase_def
        node_runtime_def no_file_world_def Let_def)
  obtain u2 b' wb' where q:
    "put ?rt ?new no_file_world ''doc1'' (JStr ''hello'') JUndefined = Inr (u2, b', wb')"
    using f
    by (simp add: put_def putFile_def ensureLoaded_def persist_def getFs_def getPath_def
        mkdir_def readFile_def writeFile_def read_and_parse_def LocalFileDatabase_def
        node_runtime_def no_file_world_def default_param_def Let_def)
  have lda: "dataLoaded a'" and ldb: "dataLoaded b'"
    using put_result [OF load p] put_result [OF load q] by simp_all
  obtain page where pg: "listFiles ?rt a' w' no_options = Inr (page, a', w')"
    using listFiles_core_total [of "files (data a')" no_options] lda
    by (auto simp: listFiles_loaded)
  have ls: "listSettings ?rt b' wb' no_options
      = Inr (listSettings_core (settings (data b')) no_options, b', wb')"
    using ldb by (rule listSettings_loaded)
  from C8_namespace_isolation [of ?rt ?new no_file_world ?a1 no_file_world
      "''manage@sysConfig@theme''" "JStr ''dark''" JUndefined u a' w' w'] load p inv s pg
  have A: "files (data a') = DAList.empty \<and> routed (data a')
      \<and> ''manage@sysConfig@theme'' \<notin> set (map fst (page_keys page))"
    by (auto simp: d1 empty_document_def)
  from C8_namespace_isolation [of ?rt ?new no_file_world ?a1 no_file_world
      "''doc1''" "JStr ''hello''" JUndefined u2 b' wb' wb'] load q inv f ls
  have B: "settings (data b') = DAList.empty \<and> routed (data b')
      \<and> ''doc1'' \<notin> set (map fst (listSettings_core (settings (data b')) no_options))"
    by (auto simp: d1 empty_document_def)
  from inv p q pg ls A B show ?thesis by blast
qed


text \<open>
  So a store that is used through the generic interface alone never lists a key of
  the other namespace.
\<close>

lemma generic_run_listings:
  assumes "generic_run rt a w"
  shows "listFiles rt a w opts = Inr (page, a2, w2) \<Longrightarrow>
           list_all (\<lambda>k. \<not> startsWith k settings_prefix \<and> \<not> startsWith k operation_prefix)
             (map fst (page_keys page))"
    and "listSettings rt a w opts = Inr (ks, a2, w2) \<Longrightarrow>
           list_all (\<lambda>k. startsWith k settings_prefix) (map fst ks)"
proof -
  from generic_run_routed [OF assms] have inv: "routed (data a)"
    and st: "dataLoaded a \<or> disk w (dbPath a) = Unreadable ''ENOENT''" by simp_all
  {
    assume l: "listFiles rt a w opts = Inr (page, a2, w2)"
    then obtain a1 w1 where load: "ensureLoaded rt a w = Inr (a1, w1)"
      and core: "listFiles_core (files (data a1)) opts = Inr page"
      by (auto simp: listFiles_def split: sum.splits)
    from ensureLoaded_keeps_data [OF load st] have "data a1 = data a" by simp
    with listFiles_core_keys [OF core] inv
    show "list_all (\<lambda>k. \<not> startsWith k settings_prefix \<and> \<not> startsWith k operation_prefix)
             (map fst (page_keys page))"
      unfolding routed_def list_all_iff by (metis subsetD)
  }
  {
    assume l: "listSettings rt a w opts = Inr (ks, a2, w2)"
    then obtain a1 w1 where load: "ensureLoaded rt a w = Inr (a1, w1)"
      and core: "ks = listSettings_core (settings (data a1)) opts"
      by (auto simp: listSettings_def split: sum.splits)
    from ensureLoaded_keeps_data [OF load st] have "data a1 = data a" by simp
    with listSettings_core_keys [of "settings (data a1)" opts] core inv
    show "list_all (\<lambda>k. startsWith k settings_prefix) (map fst ks)"
      unfolding routed_def list_all_iff by (metis subsetD)
  }
qed

end
